theory Spec2Isabelle
  imports Main
begin

section \<open>Values exchanged with the backend\<close>

text \<open>
  The management console is a set of JavaScript controllers (agents, tools, workflows,
  system configuration) over one request wrapper \<open>apiRequest\<close>. Records arrive as JSON
  objects; a field that may be missing from an object is an \<open>option\<close>, and a test such
  as \<open>if (agent.tools)\<close> is the test that the field is present and truthy.
\<close>

datatype json =
    JNull
  | JBool bool
  | JNum int int
  | JStr string
  | JArr "json list"
  | JObj "(string \<times> json) list"

text \<open>\<open>JNum m e\<close> is the decimal number \<open>m * 10 ^ e\<close>.

  The timeout of an agent record is a JSON number; the code only tests it and writes it
  into a text field, so it is kept as the text that \<open>String\<close> gives for it (\<open>30\<close> is
  \<open>''30''\<close>, zero is \<open>''0''\<close>, \<open>1e21\<close> is \<open>''1e+21''\<close>).

  The result of \<open>parseInt\<close> is \<open>NaN\<close> or the Number value for an integer: \<open>Num i\<close> is the
  integer \<open>i\<close> itself when \<open>i\<close> is at most \<open>2 ^ 53\<close> in size, and the double nearest to
  \<open>i\<close> beyond.\<close>

datatype json_number = Number string

datatype js_num = Num int | NaN

text \<open>The keys of the object literal \<open>agentData\<close> of \<open>saveAgent\<close>; an agent record of the
  backend has the same keys and, beside them, \<open>id\<close> and \<open>status\<close>. The type of the
  timeout is \<open>json_number\<close> in a record of the backend and \<open>js_num\<close> in \<open>agentData\<close>.\<close>

record 'n agent_fields =
  name :: string
  agent_type :: string
  description :: "string option"
  is_master :: bool
  tools :: "string list option"
  sub_agents :: "string list option"
  llm_model :: "string option"
  additional_prompt :: "string option"
  timeout :: "'n option"
  trust_mode :: "bool option"

record agent = "json_number agent_fields" +
  agent_id :: string
  agent_status :: string

record tool =
  tool_id :: string
  tool_name :: string
  tool_type :: string
  tool_description :: "string option"
  tool_status :: string

record workflow =
  workflow_id :: string
  workflow_name :: string
  workflow_description :: "string option"
  workflow_agents :: "string list option"
  workflow_status :: string

record llm_config =
  llm_name :: string
  api_key :: string
  base_url :: string
  model_name :: string
  default_params :: "(string \<times> json) list"

record db_config =
  db_type :: string
  connection_string :: string
  config :: "(string \<times> json) list"

record system_config =
  llm_configs :: "llm_config list"
  database_configs :: "db_config list"
  log_level :: string
  cache_dir :: string
  additional_config :: "(string \<times> json) list"

section \<open>Strings\<close>

text \<open>
  A JavaScript string is a sequence of UTF-16 code units. The model has the strings
  whose code units are below 256 (Basic Latin and Latin-1), a \<open>char\<close> being one code
  unit. On these, \<open>String.prototype.toLowerCase\<close> changes the letters \<open>A\<close> .. \<open>Z\<close> (codes
  65 .. 90) and the letters of codes 192 .. 222 other than the multiplication sign 215;
  the lower-case letter is the same code with bit 5 set.
\<close>

fun toLowerChar :: "char \<Rightarrow> char" where
  "toLowerChar (Char b0 b1 b2 b3 b4 b5 b6 b7) =
     (let n = (of_char (Char b0 b1 b2 b3 b4 b5 b6 b7) :: nat)
      in if (65 \<le> n \<and> n \<le> 90) \<or> (192 \<le> n \<and> n \<le> 222 \<and> n \<noteq> 215)
         then Char b0 b1 b2 b3 b4 True b6 b7
         else Char b0 b1 b2 b3 b4 b5 b6 b7)"

definition toLowerCase :: "string \<Rightarrow> string" where
  "toLowerCase s = map toLowerChar s"

text \<open>\<open>s.includes(t)\<close>: \<open>t\<close> occurs in \<open>s\<close> as a contiguous run of characters.\<close>

fun startsWith :: "string \<Rightarrow> string \<Rightarrow> bool" where
  "startsWith s [] = True"
| "startsWith [] (c # t) = False"
| "startsWith (d # s) (c # t) = (d = c \<and> startsWith s t)"

fun str_includes :: "string \<Rightarrow> string \<Rightarrow> bool" where
  "str_includes [] t = (t = [])"
| "str_includes (d # s) t = (startsWith (d # s) t \<or> str_includes s t)"

text \<open>\<open>xs.join(sep)\<close> on an array of strings.\<close>

fun join :: "string \<Rightarrow> string list \<Rightarrow> string" where
  "join sep [] = []"
| "join sep [x] = x"
| "join sep (x # y # ys) = x @ sep @ join sep (y # ys)"

section \<open>Filtering the lists\<close>

text \<open>The array computed by \<open>filterAgents\<close> from the search box, the type filter and the
  stored agents, and the one computed by \<open>filterTools\<close>. \<open>agent.description && ...\<close> is
  false for a missing and for an empty description.\<close>

definition filteredAgents :: "string \<Rightarrow> string \<Rightarrow> agent list \<Rightarrow> agent list" where
  "filteredAgents search typeFilter as =
     (let searchTerm = toLowerCase search
      in filter (\<lambda>agent.
           let matchesSearch =
                 (str_includes (toLowerCase (name agent)) searchTerm \<or>
                  (case description agent of
                     None \<Rightarrow> False
                   | Some d \<Rightarrow> d \<noteq> [] \<and> str_includes (toLowerCase d) searchTerm));
               matchesType = (typeFilter = [] \<or> agent_type agent = typeFilter)
           in matchesSearch \<and> matchesType) as)"

definition filteredTools :: "string \<Rightarrow> string \<Rightarrow> tool list \<Rightarrow> tool list" where
  "filteredTools search typeFilter ts =
     (let searchTerm = toLowerCase search
      in filter (\<lambda>tool.
           let matchesSearch =
                 (str_includes (toLowerCase (tool_name tool)) searchTerm \<or>
                  (case tool_description tool of
                     None \<Rightarrow> False
                   | Some d \<Rightarrow> d \<noteq> [] \<and> str_includes (toLowerCase d) searchTerm));
               matchesType = (typeFilter = [] \<or> tool_type tool = typeFilter)
           in matchesSearch \<and> matchesType) ts)"

text \<open>
  The property the filter is specified by, written without \<open>toLowerCase\<close>: the
  alphabet is listed, capital letters and small letters side by side; two characters
  are the same letter when they are equal or are the capital and the small form of
  one letter; a term occurs in a string up to case when some contiguous part of the
  string has the length of the term and the same letters, place by place.
\<close>

definition upper_letters :: string where
  "upper_letters =
     ''ABCDEFGHIJKLMNOPQRSTUVWXYZ'' @
     [CHR 0xC0, CHR 0xC1, CHR 0xC2, CHR 0xC3, CHR 0xC4, CHR 0xC5, CHR 0xC6, CHR 0xC7,
      CHR 0xC8, CHR 0xC9, CHR 0xCA, CHR 0xCB, CHR 0xCC, CHR 0xCD, CHR 0xCE, CHR 0xCF,
      CHR 0xD0, CHR 0xD1, CHR 0xD2, CHR 0xD3, CHR 0xD4, CHR 0xD5, CHR 0xD6,
      CHR 0xD8, CHR 0xD9, CHR 0xDA, CHR 0xDB, CHR 0xDC, CHR 0xDD, CHR 0xDE]"

definition lower_letters :: string where
  "lower_letters =
     ''abcdefghijklmnopqrstuvwxyz'' @
     [CHR 0xE0, CHR 0xE1, CHR 0xE2, CHR 0xE3, CHR 0xE4, CHR 0xE5, CHR 0xE6, CHR 0xE7,
      CHR 0xE8, CHR 0xE9, CHR 0xEA, CHR 0xEB, CHR 0xEC, CHR 0xED, CHR 0xEE, CHR 0xEF,
      CHR 0xF0, CHR 0xF1, CHR 0xF2, CHR 0xF3, CHR 0xF4, CHR 0xF5, CHR 0xF6,
      CHR 0xF8, CHR 0xF9, CHR 0xFA, CHR 0xFB, CHR 0xFC, CHR 0xFD, CHR 0xFE]"

definition letter_pairs :: "(char \<times> char) list" where
  "letter_pairs = zip upper_letters lower_letters"

definition same_letter :: "char \<Rightarrow> char \<Rightarrow> bool" where
  "same_letter c d \<longleftrightarrow> c = d \<or> (c, d) \<in> set letter_pairs \<or> (d, c) \<in> set letter_pairs"


section \<open>The page and the application state\<close>

text \<open>
  The globals of the scripts (\<open>agents\<close>, \<open>editingAgentId\<close>, \<open>tools\<close>, \<open>workflows\<close>,
  \<open>systemConfig\<close>) and the parts of the page the scripts read and write are the fields of
  one state. The global \<open>tools\<close> is the field \<open>tools_store\<close>, since \<open>tools\<close> is also a key
  of an agent. What cannot be computed from the state is an argument of the operation
  that observes it: the outcome of each \<open>fetch\<close>, the answer to \<open>confirm\<close> and to
  \<open>prompt\<close>. \<open>console.error\<close> and the timer that hides the toast are not modelled.
\<close>

record option_el =
  opt_value :: string
  opt_text :: string
  opt_selected :: bool

text \<open>The fields of \<open>agent-form\<close>, named by their element ids. \<open>agent-tools\<close> and
  \<open>agent-sub-agents\<close> are multiple selects, \<open>agent-llm-model\<close> is a select of one value.\<close>

record agent_form =
  el_agent_name :: string
  el_agent_type :: string
  el_agent_description :: string
  el_agent_is_master :: bool
  el_agent_tools :: "option_el list"
  el_agent_sub_agents :: "option_el list"
  el_agent_llm_model :: "option_el list"
  el_agent_additional_prompt :: string
  el_agent_timeout :: string
  el_agent_trust_mode :: bool

text \<open>A rendered table body: the one explanatory row, or one row for each record, in
  order. The markup of a row (its cells and buttons) is not modelled.\<close>

datatype 'a table = Message string | Rows "'a list"

datatype req_data =
    AgentData "js_num agent_fields"
  | ConfigData system_config
  | InputData json

record request =
  req_url :: string
  req_method :: string
  req_body :: "req_data option"

record state =
  agents :: "agent list"
  editingAgentId :: "string option"
  tools_store :: "tool list"
  workflows :: "workflow list"
  systemConfig :: "system_config option"
  agent_form :: agent_form
  agent_modal_title :: string
  agent_modal_open :: bool
  agent_list :: "agent table"
  tool_list :: "tool table"
  workflow_list :: "workflow table"
  llm_config_list :: "llm_config table"
  db_config_list :: "db_config table"
  el_log_level :: string
  el_cache_dir :: string
  toasts :: "(string \<times> string) list"
  alerts :: "string list"
  calls :: "request list"

section \<open>Notifications and the request wrapper\<close>

text \<open>\<open>showToast(message, type = 'success', duration = 3000)\<close>: the state keeps every
  toast shown, in order; the page shows the last one.\<close>

definition showToast :: "string \<Rightarrow> string \<Rightarrow> state \<Rightarrow> state" where
  "showToast message type st = st\<lparr>toasts := toasts st @ [(message, type)]\<rparr>"

definition alert :: "string \<Rightarrow> state \<Rightarrow> state" where
  "alert message st = st\<lparr>alerts := alerts st @ [message]\<rparr>"

definition apiBaseUrl :: string where
  "apiBaseUrl = ''/api/v1''"

text \<open>
  What one \<open>fetch\<close> and the reading of its body give: \<open>fetch\<close> rejects with an error of
  some message; or the response is not \<open>ok\<close>, and \<open>response.json()\<close> gives an object with
  or without \<open>detail\<close>, or rejects; or the response is \<open>ok\<close>, and \<open>response.json()\<close>
  gives the value or rejects.
\<close>

datatype error_body = ErrorData "string option" | BadErrorBody string

datatype 'a ok_body = Parsed 'a | BadBody string

datatype 'a fetch_result = Rejected string | NotOk error_body | IsOk "'a ok_body"

text \<open>What \<open>apiRequest\<close> returns: \<open>{ success: true }\<close> for a \<open>DELETE\<close>, the parsed body
  otherwise.\<close>

datatype 'a api_result = SuccessTrue | Data 'a

text \<open>\<open>apiRequest\<close> up to \<open>await fetch(url, options)\<close>: the request is issued, with a body
  only when \<open>data\<close> is given and the method is \<open>POST\<close> or \<open>PUT\<close>.\<close>

definition apiRequest_send :: "string \<Rightarrow> string \<Rightarrow> req_data option \<Rightarrow> state \<Rightarrow> state" where
  "apiRequest_send endpoint method data st =
     st\<lparr>calls := calls st @
        [\<lparr>req_url = apiBaseUrl @ endpoint, req_method = method,
          req_body = (if data \<noteq> None \<and> (method = ''POST'' \<or> method = ''PUT'')
                      then data else None)\<rparr>]\<rparr>"

text \<open>\<open>apiRequest\<close> from the outcome of the \<open>fetch\<close> on: \<open>Inl\<close> is the message of the
  error thrown again by the \<open>catch\<close>, after its toast.\<close>

definition apiRequest_recv ::
  "string \<Rightarrow> 'a fetch_result \<Rightarrow> state \<Rightarrow> (string + 'a api_result) \<times> state" where
  "apiRequest_recv method r st =
     (case r of
        Rejected m \<Rightarrow> (Inl m, showToast m ''error'' st)
      | NotOk (ErrorData detail) \<Rightarrow>
          (let m = (case detail of
                      None \<Rightarrow> ''API request failed''
                    | Some d \<Rightarrow> if d \<noteq> [] then d else ''API request failed'')
           in (Inl m, showToast m ''error'' st))
      | NotOk (BadErrorBody m) \<Rightarrow> (Inl m, showToast m ''error'' st)
      | IsOk b \<Rightarrow>
          if method = ''DELETE'' then (Inr SuccessTrue, st)
          else (case b of
                  Parsed v \<Rightarrow> (Inr (Data v), st)
                | BadBody m \<Rightarrow> (Inl m, showToast m ''error'' st)))"

definition apiRequest ::
  "string \<Rightarrow> string \<Rightarrow> req_data option \<Rightarrow> 'a fetch_result \<Rightarrow> state
     \<Rightarrow> (string + 'a api_result) \<times> state" where
  "apiRequest endpoint method data r st =
     apiRequest_recv method r (apiRequest_send endpoint method data st)"

section \<open>Loading and rendering the collections\<close>

text \<open>
  The body of a collection endpoint, as far as the scripts can tell its shapes apart:
  JSON \<open>null\<close>, or an array whose entries are records or \<open>null\<close>. The render functions
  throw on a \<open>null\<close> body (it has no \<open>length\<close>) and on a \<open>null\<close> entry (it has no
  \<open>name\<close>); \<open>rendered_records\<close> gives the records of a body on which they do not throw.
\<close>

datatype 'a list_body = NullBody | Array "'a option list"

definition records :: "'a list \<Rightarrow> 'a list_body" where
  "records xs = Array (map Some xs)"

fun all_records :: "'a option list \<Rightarrow> 'a list option" where
  "all_records [] = Some []"
| "all_records (None # xs) = None"
| "all_records (Some x # xs) =
     (case all_records xs of None \<Rightarrow> None | Some ys \<Rightarrow> Some (x # ys))"

definition rendered_records :: "'a list_body \<Rightarrow> 'a list option" where
  "rendered_records body = (case body of NullBody \<Rightarrow> None | Array xs \<Rightarrow> all_records xs)"

definition renderFilteredAgents :: "agent list \<Rightarrow> state \<Rightarrow> state" where
  "renderFilteredAgents filtered st =
     st\<lparr>agent_list := (if filtered = [] then Message ''No agents found''
                        else Rows filtered)\<rparr>"

definition renderAgents :: "state \<Rightarrow> state" where
  "renderAgents st =
     st\<lparr>agent_list := (if agents st = [] then Message ''No agents found''
                        else Rows (agents st))\<rparr>"

definition filterAgents :: "string \<Rightarrow> string \<Rightarrow> state \<Rightarrow> state" where
  "filterAgents search typeFilter st =
     renderFilteredAgents (filteredAgents search typeFilter (agents st)) st"

definition mock_agents :: "agent list" where
  "mock_agents =
     [\<lparr>name = ''time_agent'', agent_type = ''react'',
       description = Some ''An agent that provides time-related information'',
       is_master = True, tools = None, sub_agents = None, llm_model = None,
       additional_prompt = None, timeout = None, trust_mode = None,
       agent_id = ''1'', agent_status = ''active''\<rparr>,
      \<lparr>name = ''weather_agent'', agent_type = ''chat'',
       description = Some ''An agent that provides weather information'',
       is_master = False, tools = None, sub_agents = None, llm_model = None,
       additional_prompt = None, timeout = None, trust_mode = None,
       agent_id = ''2'', agent_status = ''active''\<rparr>,
      \<lparr>name = ''calculator_agent'', agent_type = ''local'',
       description = Some ''An agent that performs calculations'',
       is_master = False, tools = None, sub_agents = None, llm_model = None,
       additional_prompt = None, timeout = None, trust_mode = None,
       agent_id = ''3'', agent_status = ''inactive''\<rparr>]"

text \<open>\<open>loadAgents\<close> runs to its \<open>await\<close> (the request is issued), and resumes with the
  outcome of the request. Its \<open>try\<close> encloses the request and the render: the \<open>catch\<close>
  runs when \<open>apiRequest\<close> throws (after the toast of the wrapper) and when the render
  throws on the body received (with no toast), and assigns the development data
  whatever the store held, also over the assignment of the body made before a render
  that throws. A \<open>GET\<close> never gives \<open>{ success: true }\<close>; that branch is not reached.
  \<open>loadTools\<close>, \<open>loadWorkflows\<close> and \<open>loadSystemConfig\<close> have the same shape.\<close>

definition loadAgents_start :: "state \<Rightarrow> state" where
  "loadAgents_start st = apiRequest_send ''/agents'' ''GET'' None st"

definition loadAgents_resume :: "agent list_body fetch_result \<Rightarrow> state \<Rightarrow> state" where
  "loadAgents_resume r st =
     (case apiRequest_recv ''GET'' r st of
        (Inr (Data body), st') \<Rightarrow>
          (case rendered_records body of
             Some v \<Rightarrow> renderAgents (st'\<lparr>agents := v\<rparr>)
           | None \<Rightarrow> renderAgents (st'\<lparr>agents := mock_agents\<rparr>))
      | (Inr SuccessTrue, st') \<Rightarrow> st'
      | (Inl e, st') \<Rightarrow> renderAgents (st'\<lparr>agents := mock_agents\<rparr>))"

definition loadAgents :: "agent list_body fetch_result \<Rightarrow> state \<Rightarrow> state" where
  "loadAgents r st = loadAgents_resume r (loadAgents_start st)"

definition renderFilteredTools :: "tool list \<Rightarrow> state \<Rightarrow> state" where
  "renderFilteredTools filtered st =
     st\<lparr>tool_list := (if filtered = [] then Message ''No tools found''
                       else Rows filtered)\<rparr>"

definition renderTools :: "state \<Rightarrow> state" where
  "renderTools st =
     st\<lparr>tool_list := (if tools_store st = [] then Message ''No tools found''
                       else Rows (tools_store st))\<rparr>"

definition filterTools :: "string \<Rightarrow> string \<Rightarrow> state \<Rightarrow> state" where
  "filterTools search typeFilter st =
     renderFilteredTools (filteredTools search typeFilter (tools_store st)) st"

definition mock_tools :: "tool list" where
  "mock_tools =
     [\<lparr>tool_id = ''1'', tool_name = ''time_tools'', tool_type = ''function'',
       tool_description = Some ''Tools for time-related operations'',
       tool_status = ''active''\<rparr>,
      \<lparr>tool_id = ''2'', tool_name = ''weather_tools'', tool_type = ''api'',
       tool_description = Some ''Tools for weather information'',
       tool_status = ''active''\<rparr>,
      \<lparr>tool_id = ''3'', tool_name = ''calculator_tools'', tool_type = ''function'',
       tool_description = Some ''Tools for mathematical calculations'',
       tool_status = ''active''\<rparr>,
      \<lparr>tool_id = ''4'', tool_name = ''browser_tools'', tool_type = ''mcp'',
       tool_description = Some ''Tools for browser automation'',
       tool_status = ''inactive''\<rparr>]"

definition loadTools_start :: "state \<Rightarrow> state" where
  "loadTools_start st = apiRequest_send ''/tools'' ''GET'' None st"

definition loadTools_resume :: "tool list_body fetch_result \<Rightarrow> state \<Rightarrow> state" where
  "loadTools_resume r st =
     (case apiRequest_recv ''GET'' r st of
        (Inr (Data body), st') \<Rightarrow>
          (case rendered_records body of
             Some v \<Rightarrow> renderTools (st'\<lparr>tools_store := v\<rparr>)
           | None \<Rightarrow> renderTools (st'\<lparr>tools_store := mock_tools\<rparr>))
      | (Inr SuccessTrue, st') \<Rightarrow> st'
      | (Inl e, st') \<Rightarrow> renderTools (st'\<lparr>tools_store := mock_tools\<rparr>))"

definition loadTools :: "tool list_body fetch_result \<Rightarrow> state \<Rightarrow> state" where
  "loadTools r st = loadTools_resume r (loadTools_start st)"

definition renderWorkflows :: "state \<Rightarrow> state" where
  "renderWorkflows st =
     st\<lparr>workflow_list := (if workflows st = [] then Message ''No workflows found''
                           else Rows (workflows st))\<rparr>"

definition mock_workflows :: "workflow list" where
  "mock_workflows =
     [\<lparr>workflow_id = ''1'', workflow_name = ''weather_forecast'',
       workflow_description = Some ''A workflow for getting weather forecasts'',
       workflow_agents = Some [''1'', ''2''], workflow_status = ''active''\<rparr>,
      \<lparr>workflow_id = ''2'', workflow_name = ''time_calculator'',
       workflow_description = Some ''A workflow for time-based calculations'',
       workflow_agents = Some [''1'', ''3''], workflow_status = ''active''\<rparr>,
      \<lparr>workflow_id = ''3'', workflow_name = ''data_processor'',
       workflow_description = Some ''A workflow for processing data'',
       workflow_agents = Some [''2'', ''3''], workflow_status = ''inactive''\<rparr>]"

definition loadWorkflows_start :: "state \<Rightarrow> state" where
  "loadWorkflows_start st = apiRequest_send ''/workflows'' ''GET'' None st"

definition loadWorkflows_resume :: "workflow list_body fetch_result \<Rightarrow> state \<Rightarrow> state" where
  "loadWorkflows_resume r st =
     (case apiRequest_recv ''GET'' r st of
        (Inr (Data body), st') \<Rightarrow>
          (case rendered_records body of
             Some v \<Rightarrow> renderWorkflows (st'\<lparr>workflows := v\<rparr>)
           | None \<Rightarrow> renderWorkflows (st'\<lparr>workflows := mock_workflows\<rparr>))
      | (Inr SuccessTrue, st') \<Rightarrow> st'
      | (Inl e, st') \<Rightarrow> renderWorkflows (st'\<lparr>workflows := mock_workflows\<rparr>))"

definition loadWorkflows :: "workflow list_body fetch_result \<Rightarrow> state \<Rightarrow> state" where
  "loadWorkflows r st = loadWorkflows_resume r (loadWorkflows_start st)"

section \<open>System configuration\<close>

text \<open>\<open>xs.splice(index, 1)\<close>: a negative index counts from the end, an index beyond
  the end removes nothing.\<close>

definition splice1 :: "int \<Rightarrow> 'a list \<Rightarrow> 'a list" where
  "splice1 i xs =
     (let len = int (length xs);
          start = (if i < 0 then max (len + i) 0 else min i len)
      in take (nat start) xs @ drop (nat start + 1) xs)"

datatype js_error = TypeError

definition renderLlmConfigs :: "system_config \<Rightarrow> state \<Rightarrow> state" where
  "renderLlmConfigs cfg st =
     st\<lparr>llm_config_list :=
          (if llm_configs cfg = [] then Message ''No LLM configurations found''
           else Rows (llm_configs cfg))\<rparr>"

definition renderDatabaseConfigs :: "system_config \<Rightarrow> state \<Rightarrow> state" where
  "renderDatabaseConfigs cfg st =
     st\<lparr>db_config_list :=
          (if database_configs cfg = [] then Message ''No database configurations found''
           else Rows (database_configs cfg))\<rparr>"

definition renderGeneralSettings :: "system_config \<Rightarrow> state \<Rightarrow> state" where
  "renderGeneralSettings cfg st =
     st\<lparr>el_log_level := (if log_level cfg \<noteq> [] then log_level cfg else ''INFO''),
        el_cache_dir := cache_dir cfg\<rparr>"

text \<open>\<open>renderSystemConfig\<close> reads the global; on the null \<open>systemConfig\<close> it throws. In
  \<open>loadSystemConfig\<close> a \<open>null\<close> body therefore leads to the \<open>catch\<close>, as a failed request
  does; the body of the endpoint is \<open>None\<close> for JSON \<open>null\<close>.\<close>

definition renderSystemConfig :: "state \<Rightarrow> state" where
  "renderSystemConfig st =
     (case systemConfig st of
        None \<Rightarrow> st
      | Some cfg \<Rightarrow>
          renderGeneralSettings cfg (renderDatabaseConfigs cfg (renderLlmConfigs cfg st)))"

definition mock_config :: system_config where
  "mock_config =
     \<lparr>llm_configs =
        [\<lparr>llm_name = ''default_llm'', api_key = ''***'',
          base_url = ''https://api.example.com'', model_name = ''example-model'',
          default_params = [(''temperature'', JNum 7 (- 1)), (''max_tokens'', JNum 1000 0)]\<rparr>],
      database_configs =
        [\<lparr>db_type = ''elasticsearch'', connection_string = ''http://localhost:9200'',
          config = [(''index_prefix'', JStr ''oxygent_'')]\<rparr>],
      log_level = ''INFO'',
      cache_dir = ''/tmp/oxygent_cache'',
      additional_config =
        [(''web_service_port'', JNum 8000 0), (''enable_monitoring'', JBool True)]\<rparr>"

definition loadSystemConfig_start :: "state \<Rightarrow> state" where
  "loadSystemConfig_start st = apiRequest_send ''/system/config'' ''GET'' None st"

definition loadSystemConfig_resume ::
  "system_config option fetch_result \<Rightarrow> state \<Rightarrow> state" where
  "loadSystemConfig_resume r st =
     (case apiRequest_recv ''GET'' r st of
        (Inr (Data body), st') \<Rightarrow>
          (case body of
             Some v \<Rightarrow> renderSystemConfig (st'\<lparr>systemConfig := Some v\<rparr>)
           | None \<Rightarrow> renderSystemConfig (st'\<lparr>systemConfig := Some mock_config\<rparr>))
      | (Inr SuccessTrue, st') \<Rightarrow> st'
      | (Inl e, st') \<Rightarrow> renderSystemConfig (st'\<lparr>systemConfig := Some mock_config\<rparr>))"

definition loadSystemConfig :: "system_config option fetch_result \<Rightarrow> state \<Rightarrow> state" where
  "loadSystemConfig r st = loadSystemConfig_resume r (loadSystemConfig_start st)"

text \<open>\<open>saveGeneralSettings\<close> assigns the two form values to the \<open>systemConfig\<close> object and
  then sends the object; on the null \<open>systemConfig\<close> the assignment throws. The \<open>catch\<close>
  shows a toast and does nothing else.\<close>

definition saveGeneralSettings :: "'a fetch_result \<Rightarrow> state \<Rightarrow> js_error + state" where
  "saveGeneralSettings r st =
     (case systemConfig st of
        None \<Rightarrow> Inl TypeError
      | Some cfg \<Rightarrow>
          (let logLevel = el_log_level st;
               cacheDir = el_cache_dir st;
               cfg' = cfg\<lparr>log_level := logLevel, cache_dir := cacheDir\<rparr>;
               st1 = st\<lparr>systemConfig := Some cfg'\<rparr>
           in case apiRequest ''/system/config'' ''PUT'' (Some (ConfigData cfg')) r st1 of
                (Inr v, st2) \<Rightarrow> Inr (showToast ''Settings saved successfully'' ''success'' st2)
              | (Inl e, st2) \<Rightarrow> Inr (showToast ''Error saving settings'' ''error'' st2)))"

text \<open>\<open>updateSystemConfig\<close> sends the current object; only a successful \<open>PUT\<close> is
  followed by a reload.\<close>

definition updateSystemConfig ::
  "'a fetch_result \<Rightarrow> system_config option fetch_result \<Rightarrow> state \<Rightarrow> state" where
  "updateSystemConfig r r_reload st =
     (case apiRequest ''/system/config'' ''PUT'' (map_option ConfigData (systemConfig st)) r st of
        (Inr v, st1) \<Rightarrow>
          loadSystemConfig r_reload
            (showToast ''Configuration updated successfully'' ''success'' st1)
      | (Inl e, st1) \<Rightarrow> showToast ''Error updating configuration'' ''error'' st1)"

definition deleteLlm ::
  "bool \<Rightarrow> int \<Rightarrow> 'a fetch_result \<Rightarrow> system_config option fetch_result \<Rightarrow> state
     \<Rightarrow> js_error + state" where
  "deleteLlm confirmed index r r_reload st =
     (if confirmed then
        (case systemConfig st of
           None \<Rightarrow> Inl TypeError
         | Some cfg \<Rightarrow>
             Inr (updateSystemConfig r r_reload
                    (st\<lparr>systemConfig :=
                          Some (cfg\<lparr>llm_configs := splice1 index (llm_configs cfg)\<rparr>)\<rparr>)))
      else Inr st)"

definition deleteDatabase ::
  "bool \<Rightarrow> int \<Rightarrow> 'a fetch_result \<Rightarrow> system_config option fetch_result \<Rightarrow> state
     \<Rightarrow> js_error + state" where
  "deleteDatabase confirmed index r r_reload st =
     (if confirmed then
        (case systemConfig st of
           None \<Rightarrow> Inl TypeError
         | Some cfg \<Rightarrow>
             Inr (updateSystemConfig r r_reload
                    (st\<lparr>systemConfig :=
                          Some (cfg\<lparr>database_configs :=
                                      splice1 index (database_configs cfg)\<rparr>)\<rparr>)))
      else Inr st)"

section \<open>Numbers in form fields\<close>

text \<open>\<open>parseInt(s)\<close> without a radix skips leading white space (of the code units below
  256: tab, line feed, vertical tab, form feed, carriage return, space and no-break
  space), reads a sign and a \<open>0x\<close> prefix, and converts the longest run of digits, \<open>NaN\<close>
  when there is none; its result is the Number value for the integer read.\<close>

definition isWhiteSpace :: "char \<Rightarrow> bool" where
  "isWhiteSpace c \<longleftrightarrow>
     c \<in> set [CHR 0x09, CHR 0x0A, CHR 0x0B, CHR 0x0C, CHR 0x0D, CHR '' '', CHR 0xA0]"

definition digitValue :: "char \<Rightarrow> nat option" where
  "digitValue c =
     (let n = (of_char c :: nat)
      in if 48 \<le> n \<and> n \<le> 57 then Some (n - 48)
         else if 97 \<le> n \<and> n \<le> 102 then Some (n - 87)
         else if 65 \<le> n \<and> n \<le> 70 then Some (n - 55)
         else None)"

definition isDigitOf :: "nat \<Rightarrow> char \<Rightarrow> bool" where
  "isDigitOf R c = (case digitValue c of None \<Rightarrow> False | Some d \<Rightarrow> d < R)"

definition digitOr0 :: "char \<Rightarrow> nat" where
  "digitOr0 c = (case digitValue c of None \<Rightarrow> 0 | Some d \<Rightarrow> d)"

definition parseDigits :: "nat \<Rightarrow> string \<Rightarrow> js_num" where
  "parseDigits R S =
     (let Z = takeWhile (isDigitOf R) S
      in if Z = [] then NaN
         else Num (int (foldl (\<lambda>acc c. acc * R + digitOr0 c) 0 Z)))"

definition parseInt :: "string \<Rightarrow> js_num" where
  "parseInt s =
     (let S = dropWhile isWhiteSpace s;
          neg = (case S of [] \<Rightarrow> False | c # cs \<Rightarrow> c = CHR ''-'');
          S1 = (case S of [] \<Rightarrow> [] | c # cs \<Rightarrow> if c = CHR ''-'' \<or> c = CHR ''+'' then cs else S);
          hex = (case S1 of
                   a # b # cs \<Rightarrow> a = CHR ''0'' \<and> (b = CHR ''x'' \<or> b = CHR ''X'')
                 | _ \<Rightarrow> False);
          v = (if hex then parseDigits 16 (drop 2 S1) else parseDigits 10 S1)
      in case v of NaN \<Rightarrow> NaN | Num i \<Rightarrow> Num (if neg then - i else i))"

section \<open>The agent form: create, edit, save, delete\<close>

text \<open>A select of one value: its \<open>value\<close> is that of the first selected option, or empty;
  assigning \<open>value\<close> selects the first option of that value and no other; when its options
  are replaced, or the form is reset, the first option is the selected one.\<close>

definition select_value :: "option_el list \<Rightarrow> string" where
  "select_value opts = (case filter opt_selected opts of [] \<Rightarrow> [] | x # xs \<Rightarrow> opt_value x)"

fun set_select_value :: "string \<Rightarrow> option_el list \<Rightarrow> option_el list" where
  "set_select_value v [] = []"
| "set_select_value v (x # xs) =
     (if opt_value x = v
      then x\<lparr>opt_selected := True\<rparr> # map (\<lambda>y. y\<lparr>opt_selected := False\<rparr>) xs
      else x\<lparr>opt_selected := False\<rparr> # set_select_value v xs)"

definition select_first :: "option_el list \<Rightarrow> option_el list" where
  "select_first opts =
     (case opts of
        [] \<Rightarrow> []
      | x # xs \<Rightarrow> x\<lparr>opt_selected := True\<rparr> # map (\<lambda>y. y\<lparr>opt_selected := False\<rparr>) xs)"

definition new_option :: "string \<Rightarrow> string \<Rightarrow> option_el" where
  "new_option v t = \<lparr>opt_value = v, opt_text = t, opt_selected = False\<rparr>"

text \<open>\<open>form.reset()\<close>, on a page that declares no default values: text fields empty,
  check boxes off, no option of a multiple select selected.\<close>

definition reset_form :: "agent_form \<Rightarrow> agent_form" where
  "reset_form f =
     \<lparr>el_agent_name = [], el_agent_type = [], el_agent_description = [],
      el_agent_is_master = False,
      el_agent_tools = map (\<lambda>y. y\<lparr>opt_selected := False\<rparr>) (el_agent_tools f),
      el_agent_sub_agents = map (\<lambda>y. y\<lparr>opt_selected := False\<rparr>) (el_agent_sub_agents f),
      el_agent_llm_model = select_first (el_agent_llm_model f),
      el_agent_additional_prompt = [], el_agent_timeout = [],
      el_agent_trust_mode = False\<rparr>"

text \<open>The two loaders of options have the \<open>try\<close> of the collection loaders: on a failed
  request and on a body on which \<open>forEach\<close> throws, the \<open>catch\<close> writes the development
  options.\<close>

definition loadToolsForAgent_resume :: "tool list_body fetch_result \<Rightarrow> state \<Rightarrow> state" where
  "loadToolsForAgent_resume r st =
     (let mock = [new_option ''1'' ''time_tools'', new_option ''2'' ''weather_tools'',
                  new_option ''3'' ''calculator_tools'']
      in case apiRequest_recv ''GET'' r st of
           (Inr (Data body), st') \<Rightarrow>
             (case rendered_records body of
                Some ts \<Rightarrow>
                  st'\<lparr>agent_form := (agent_form st')
                        \<lparr>el_agent_tools :=
                           map (\<lambda>t. new_option (tool_id t) (tool_name t)) ts\<rparr>\<rparr>
              | None \<Rightarrow> st'\<lparr>agent_form := (agent_form st')\<lparr>el_agent_tools := mock\<rparr>\<rparr>)
         | (Inr SuccessTrue, st') \<Rightarrow> st'
         | (Inl e, st') \<Rightarrow> st'\<lparr>agent_form := (agent_form st')\<lparr>el_agent_tools := mock\<rparr>\<rparr>)"

definition loadAgentsForSubAgents :: "state \<Rightarrow> state" where
  "loadAgentsForSubAgents st =
     st\<lparr>agent_form := (agent_form st)
          \<lparr>el_agent_sub_agents := map (\<lambda>a. new_option (agent_id a) (name a)) (agents st)\<rparr>\<rparr>"

definition loadLlmModels_resume ::
  "system_config option fetch_result \<Rightarrow> state \<Rightarrow> state" where
  "loadLlmModels_resume r st =
     (let mock = select_first
                   [new_option ''default_llm'' ''default_llm (example-model)'',
                    new_option ''gpt4'' ''gpt4 (gpt-4)'',
                    new_option ''claude'' ''claude (claude-2)'']
      in case apiRequest_recv ''GET'' r st of
           (Inr (Data body), st') \<Rightarrow>
             (case body of
                Some cfg \<Rightarrow>
                  st'\<lparr>agent_form := (agent_form st')
                        \<lparr>el_agent_llm_model :=
                           select_first
                             (map (\<lambda>llm. new_option (llm_name llm)
                                           (llm_name llm @ '' ('' @ model_name llm @ '')''))
                                (llm_configs cfg))\<rparr>\<rparr>
              | None \<Rightarrow>
                  st'\<lparr>agent_form := (agent_form st')\<lparr>el_agent_llm_model := mock\<rparr>\<rparr>)
         | (Inr SuccessTrue, st') \<Rightarrow> st'
         | (Inl e, st') \<Rightarrow>
             st'\<lparr>agent_form := (agent_form st')\<lparr>el_agent_llm_model := mock\<rparr>\<rparr>)"

text \<open>\<open>openAgentModal\<close>: the three loaders are started in turn, none awaited, so both
  requests are issued before either resumes; the tools answer is taken first.\<close>

definition openAgentModal ::
  "tool list_body fetch_result \<Rightarrow> system_config option fetch_result \<Rightarrow> state \<Rightarrow> state" where
  "openAgentModal r_tools r_config st =
     (let st1 = st\<lparr>agent_form := reset_form (agent_form st),
                   agent_modal_title := ''Create Agent'',
                   editingAgentId := None,
                   agent_modal_open := True\<rparr>;
          st2 = apiRequest_send ''/tools'' ''GET'' None st1;
          st3 = loadAgentsForSubAgents st2;
          st4 = apiRequest_send ''/system/config'' ''GET'' None st3
      in loadLlmModels_resume r_config (loadToolsForAgent_resume r_tools st4))"

text \<open>The assignments of \<open>editAgent\<close> to the form, each under the test the source puts
  on it. A timeout is falsy when it is zero, that is, when its text is \<open>''0''\<close>; the
  text field receives the text of the number.\<close>

definition populate_form :: "agent \<Rightarrow> agent_form \<Rightarrow> agent_form" where
  "populate_form agent f =
     (let f1 = f\<lparr>el_agent_name := name agent,
                 el_agent_type := agent_type agent,
                 el_agent_description := (case description agent of None \<Rightarrow> [] | Some d \<Rightarrow> d),
                 el_agent_is_master := is_master agent\<rparr>;
          f2 = (case tools agent of
                  None \<Rightarrow> f1
                | Some ts \<Rightarrow>
                    f1\<lparr>el_agent_tools :=
                         map (\<lambda>y. y\<lparr>opt_selected := (opt_value y \<in> set ts)\<rparr>)
                           (el_agent_tools f1)\<rparr>);
          f3 = (case sub_agents agent of
                  None \<Rightarrow> f2
                | Some ss \<Rightarrow>
                    f2\<lparr>el_agent_sub_agents :=
                         map (\<lambda>y. y\<lparr>opt_selected := (opt_value y \<in> set ss)\<rparr>)
                           (el_agent_sub_agents f2)\<rparr>);
          f4 = (case llm_model agent of
                  None \<Rightarrow> f3
                | Some m \<Rightarrow>
                    if m \<noteq> []
                    then f3\<lparr>el_agent_llm_model := set_select_value m (el_agent_llm_model f3)\<rparr>
                    else f3);
          f5 = (case additional_prompt agent of
                  None \<Rightarrow> f4
                | Some p \<Rightarrow> if p \<noteq> [] then f4\<lparr>el_agent_additional_prompt := p\<rparr> else f4);
          f6 = (case timeout agent of
                  None \<Rightarrow> f5
                | Some (Number t) \<Rightarrow> if t \<noteq> ''0'' then f5\<lparr>el_agent_timeout := t\<rparr> else f5);
          f7 = (case trust_mode agent of
                  None \<Rightarrow> f6
                | Some b \<Rightarrow> f6\<lparr>el_agent_trust_mode := b\<rparr>)
      in f7)"

definition editAgent :: "string \<Rightarrow> agent fetch_result \<Rightarrow> state \<Rightarrow> state" where
  "editAgent agentId r st =
     (case apiRequest (''/agents/'' @ agentId) ''GET'' None r st of
        (Inr (Data agent), st1) \<Rightarrow>
          st1\<lparr>agent_form := populate_form agent (agent_form st1),
              agent_modal_title := ''Edit Agent'',
              editingAgentId := Some agentId,
              agent_modal_open := True\<rparr>
      | (Inr SuccessTrue, st1) \<Rightarrow> st1
      | (Inl e, st1) \<Rightarrow> showToast ''Error loading agent details'' ''error'' st1)"

text \<open>The object \<open>agentData\<close> that \<open>saveAgent\<close> reads from the form.\<close>

definition agentData :: "agent_form \<Rightarrow> js_num agent_fields" where
  "agentData f =
     \<lparr>name = el_agent_name f,
      agent_type = el_agent_type f,
      description = Some (el_agent_description f),
      is_master = el_agent_is_master f,
      tools = Some (map opt_value (filter opt_selected (el_agent_tools f))),
      sub_agents = Some (map opt_value (filter opt_selected (el_agent_sub_agents f))),
      llm_model = Some (select_value (el_agent_llm_model f)),
      additional_prompt = Some (el_agent_additional_prompt f),
      timeout = (if el_agent_timeout f \<noteq> [] then Some (parseInt (el_agent_timeout f))
                 else None),
      trust_mode = Some (el_agent_trust_mode f)\<rparr>"

definition saveAgent ::
  "'a fetch_result \<Rightarrow> agent list_body fetch_result \<Rightarrow> state \<Rightarrow> state" where
  "saveAgent r r_reload st =
     (let data = agentData (agent_form st);
          editing = (case editingAgentId st of
                       None \<Rightarrow> None
                     | Some i \<Rightarrow> if i \<noteq> [] then Some i else None)
      in case editing of
           Some i \<Rightarrow>
             (case apiRequest (''/agents/'' @ i) ''PUT'' (Some (AgentData data)) r st of
                (Inr v, st1) \<Rightarrow>
                  loadAgents r_reload
                    ((showToast ''Agent updated successfully'' ''success'' st1)
                       \<lparr>agent_modal_open := False\<rparr>)
              | (Inl e, st1) \<Rightarrow> showToast ''Error saving agent'' ''error'' st1)
         | None \<Rightarrow>
             (case apiRequest ''/agents'' ''POST'' (Some (AgentData data)) r st of
                (Inr v, st1) \<Rightarrow>
                  loadAgents r_reload
                    ((showToast ''Agent created successfully'' ''success'' st1)
                       \<lparr>agent_modal_open := False\<rparr>)
              | (Inl e, st1) \<Rightarrow> showToast ''Error saving agent'' ''error'' st1))"

definition deleteAgent ::
  "bool \<Rightarrow> string \<Rightarrow> 'a fetch_result \<Rightarrow> agent list_body fetch_result \<Rightarrow> state \<Rightarrow> state" where
  "deleteAgent confirmed agentId r r_reload st =
     (if confirmed then
        (case apiRequest (''/agents/'' @ agentId) ''DELETE'' None r st of
           (Inr v, st1) \<Rightarrow>
             loadAgents r_reload (showToast ''Agent deleted successfully'' ''success'' st1)
         | (Inl e, st1) \<Rightarrow> showToast ''Error deleting agent'' ''error'' st1)
      else st)"

definition deleteTool ::
  "bool \<Rightarrow> string \<Rightarrow> 'a fetch_result \<Rightarrow> tool list_body fetch_result \<Rightarrow> state \<Rightarrow> state" where
  "deleteTool confirmed toolId r r_reload st =
     (if confirmed then
        (case apiRequest (''/tools/'' @ toolId) ''DELETE'' None r st of
           (Inr v, st1) \<Rightarrow>
             loadTools r_reload (showToast ''Tool deleted successfully'' ''success'' st1)
         | (Inl e, st1) \<Rightarrow> showToast ''Error deleting tool'' ''error'' st1)
      else st)"

definition deleteWorkflow ::
  "bool \<Rightarrow> string \<Rightarrow> 'a fetch_result \<Rightarrow> workflow list_body fetch_result \<Rightarrow> state \<Rightarrow> state" where
  "deleteWorkflow confirmed workflowId r r_reload st =
     (if confirmed then
        (case apiRequest (''/workflows/'' @ workflowId) ''DELETE'' None r st of
           (Inr v, st1) \<Rightarrow>
             loadWorkflows r_reload
               (showToast ''Workflow deleted successfully'' ''success'' st1)
         | (Inl e, st1) \<Rightarrow> showToast ''Error deleting workflow'' ''error'' st1)
      else st)"

section \<open>Run, test and validate\<close>

text \<open>
  \<open>JSON.parse\<close> and \<open>JSON.stringify\<close> are the engine's; they are parameters here, \<open>None\<close>
  being the \<open>SyntaxError\<close> of \<open>JSON.parse\<close>. The answer to \<open>prompt\<close> is \<open>None\<close> when it is
  cancelled. The inner \<open>try\<close> of \<open>runWorkflow\<close> and \<open>testTool\<close> encloses the request as
  well as the parse, so its \<open>catch\<close> also receives the error that \<open>apiRequest\<close> throws
  again. The body of a run or test response is its \<open>output\<close>, if it has one.
\<close>

definition runWorkflow ::
  "(string \<Rightarrow> json option) \<Rightarrow> (json \<Rightarrow> string) \<Rightarrow> string option \<Rightarrow> string
     \<Rightarrow> json option fetch_result \<Rightarrow> state \<Rightarrow> state" where
  "runWorkflow JSON_parse JSON_stringify runInput workflowId r st =
     (case runInput of
        None \<Rightarrow> st
      | Some s \<Rightarrow>
          if s = [] then st
          else (case JSON_parse s of
                  None \<Rightarrow> alert ''Invalid JSON input. Please enter valid JSON.'' st
                | Some inputData \<Rightarrow>
                    (case apiRequest (''/workflows/'' @ workflowId @ ''/run'') ''POST''
                            (Some (InputData inputData)) r st of
                       (Inr (Data output), st1) \<Rightarrow>
                         alert (''Run Result: '' @
                                (case output of
                                   None \<Rightarrow> ''undefined''
                                 | Some v \<Rightarrow> JSON_stringify v)) st1
                     | (Inr SuccessTrue, st1) \<Rightarrow> st1
                     | (Inl e, st1) \<Rightarrow>
                         alert ''Invalid JSON input. Please enter valid JSON.'' st1)))"

definition testTool ::
  "(string \<Rightarrow> json option) \<Rightarrow> (json \<Rightarrow> string) \<Rightarrow> string option \<Rightarrow> string
     \<Rightarrow> json option fetch_result \<Rightarrow> state \<Rightarrow> state" where
  "testTool JSON_parse JSON_stringify testInput toolId r st =
     (case testInput of
        None \<Rightarrow> st
      | Some s \<Rightarrow>
          if s = [] then st
          else (case JSON_parse s of
                  None \<Rightarrow> alert ''Invalid JSON input. Please enter valid JSON.'' st
                | Some inputData \<Rightarrow>
                    (case apiRequest (''/tools/'' @ toolId @ ''/test'') ''POST''
                            (Some (InputData inputData)) r st of
                       (Inr (Data output), st1) \<Rightarrow>
                         alert (''Test Result: '' @
                                (case output of
                                   None \<Rightarrow> ''undefined''
                                 | Some v \<Rightarrow> JSON_stringify v)) st1
                     | (Inr SuccessTrue, st1) \<Rightarrow> st1
                     | (Inl e, st1) \<Rightarrow>
                         alert ''Invalid JSON input. Please enter valid JSON.'' st1)))"

text \<open>A stand-in for \<open>JSON.parse\<close> in examples: it agrees with \<open>JSON.parse\<close> on the text
  \<open>{}\<close> and on every text that is not JSON.\<close>

definition parse_empty_object :: "string \<Rightarrow> json option" where
  "parse_empty_object s = (if s = ''{}'' then Some (JObj []) else None)"

record validation_result =
  is_valid :: bool
  messages :: "string list"

definition validateWorkflow :: "string \<Rightarrow> validation_result fetch_result \<Rightarrow> state \<Rightarrow> state" where
  "validateWorkflow workflowId r st =
     (case apiRequest (''/workflows/'' @ workflowId @ ''/validate'') ''POST'' None r st of
        (Inr (Data validationResult), st1) \<Rightarrow>
          if is_valid validationResult then showToast ''Workflow is valid'' ''success'' st1
          else showToast (''Workflow validation failed: '' @
                          join '', '' (messages validationResult)) ''error'' st1
      | (Inr SuccessTrue, st1) \<Rightarrow> st1
      | (Inl e, st1) \<Rightarrow> showToast ''Error validating workflow'' ''error'' st1)"

section \<open>Overlapping loads\<close>

text \<open>
  All scripts run on one thread; an \<open>async\<close> function is suspended at its \<open>await\<close> and
  resumed when the request settles, in whatever order the requests settle. A run of
  overlapping \<open>loadAgents\<close> calls is a list of events: a call starts (and is numbered),
  or the request of a call still in flight settles with an outcome.
\<close>

datatype load_event = StartLoad | ResolveLoad nat "agent list_body fetch_result"

record load_run =
  started :: nat
  in_flight :: "nat list"
  app :: state

fun load_step :: "load_run \<Rightarrow> load_event \<Rightarrow> load_run" where
  "load_step s StartLoad =
     s\<lparr>started := Suc (started s),
       in_flight := in_flight s @ [started s],
       app := loadAgents_start (app s)\<rparr>"
| "load_step s (ResolveLoad k r) =
     (if k \<in> set (in_flight s)
      then s\<lparr>in_flight := removeAll k (in_flight s),
             app := loadAgents_resume r (app s)\<rparr>
      else s)"

definition run_loads :: "load_event list \<Rightarrow> state \<Rightarrow> load_run" where
  "run_loads es st = foldl load_step \<lparr>started = 0, in_flight = [], app = st\<rparr> es"

text \<open>What a settled load leaves in the store.\<close>

definition load_outcome :: "agent list_body fetch_result \<Rightarrow> agent list" where
  "load_outcome r =
     (case r of
        IsOk (Parsed body) \<Rightarrow>
          (case rendered_records body of Some v \<Rightarrow> v | None \<Rightarrow> mock_agents)
      | _ \<Rightarrow> mock_agents)"

section \<open>The state when the scripts are loaded\<close>

text \<open>The globals as their declarations initialise them, on a page whose form fields are
  empty and whose tables and selects have no content yet.\<close>

definition init_form :: agent_form where
  "init_form =
     \<lparr>el_agent_name = [], el_agent_type = [], el_agent_description = [],
      el_agent_is_master = False, el_agent_tools = [], el_agent_sub_agents = [],
      el_agent_llm_model = [], el_agent_additional_prompt = [], el_agent_timeout = [],
      el_agent_trust_mode = False\<rparr>"

definition init_state :: state where
  "init_state =
     \<lparr>agents = [], editingAgentId = None, tools_store = [], workflows = [],
      systemConfig = None, agent_form = init_form, agent_modal_title = [],
      agent_modal_open = False, agent_list = Rows [], tool_list = Rows [],
      workflow_list = Rows [], llm_config_list = Rows [], db_config_list = Rows [],
      el_log_level = [], el_cache_dir = [], toasts = [], alerts = [], calls = []\<rparr>"

text \<open>A create session, opened against a backend that answers with four tools and one
  model, in which the administrator has typed some values and has not saved them.\<close>

definition create_session :: state where
  "create_session =
     openAgentModal (IsOk (Parsed (records mock_tools))) (IsOk (Parsed (Some mock_config)))
       (init_state\<lparr>agents := mock_agents\<rparr>)"

definition unsaved_session :: state where
  "unsaved_session =
     create_session
       \<lparr>agent_form := (agent_form create_session)
          \<lparr>el_agent_name := ''draft'',
           el_agent_additional_prompt := ''Always answer in French'',
           el_agent_timeout := ''99'',
           el_agent_trust_mode := True\<rparr>\<rparr>"

text \<open>The message of the error that \<open>apiRequest\<close> throws on an outcome of the
  \<open>fetch\<close>, if it throws: read off the wrapper itself (what it returns does not depend
  on the state).\<close>

definition thrown :: "string \<Rightarrow> 'a fetch_result \<Rightarrow> string option" where
  "thrown method r =
     (case fst (apiRequest_recv method r init_state) of Inl m \<Rightarrow> Some m | Inr v \<Rightarrow> None)"

section \<open>Example records\<close>

text \<open>An agent of the backend with every key set, and one with only the keys of the
  development data.\<close>

definition planner_agent :: agent where
  "planner_agent =
     \<lparr>name = ''planner'', agent_type = ''react'',
      description = Some ''Plans the work'', is_master = True,
      tools = Some [''2''], sub_agents = Some [''3''], llm_model = Some ''gpt4'',
      additional_prompt = Some ''Be brief'', timeout = Some (Number ''30''),
      trust_mode = Some True, agent_id = ''7'', agent_status = ''active''\<rparr>"

definition plain_agent :: agent where
  "plain_agent =
     \<lparr>name = ''weather_agent'', agent_type = ''chat'',
      description = Some ''An agent that provides weather information'',
      is_master = False, tools = None, sub_agents = None, llm_model = None,
      additional_prompt = None, timeout = None, trust_mode = None,
      agent_id = ''2'', agent_status = ''active''\<rparr>"

text \<open>The page after its first load has listed one agent.\<close>

definition listed_page :: state where
  "listed_page = loadAgents (IsOk (Parsed (records [planner_agent]))) init_state"

section \<open>Properties of the filter\<close>














lemma same_letter_examples:
  "same_letter CHR ''T'' CHR ''t''" "same_letter CHR 0xE9 CHR 0xC9"
  "\<not> same_letter CHR ''T'' CHR ''d''" "\<not> same_letter CHR 0xD7 CHR 0xF7"
  "\<not> same_letter CHR ''@'' CHR 0x60" "\<not> same_letter CHR ''['' CHR ''{''"
  by (simp_all add: same_letter_def letter_pairs_def upper_letters_def lower_letters_def)



text \<open>Accented letters: a tool named \<open>CAF\<close> followed by the capital E with acute accent
  is kept for the search term that is the small e with acute accent alone.\<close>

lemma filter_accented_example:
  "filteredTools [CHR 0xE9] []
     [\<lparr>tool_id = ''9'', tool_name = ''CAF'' @ [CHR 0xC9], tool_type = ''api'',
       tool_description = None, tool_status = ''active''\<rparr>] =
     [\<lparr>tool_id = ''9'', tool_name = ''CAF'' @ [CHR 0xC9], tool_type = ''api'',
       tool_description = None, tool_status = ''active''\<rparr>]"
  by (simp add: filteredTools_def toLowerCase_def)

section \<open>Properties of the request wrapper\<close>

lemma apiRequest_recv_thrown:
  "thrown method r = Some m \<Longrightarrow> apiRequest_recv method r st = (Inl m, showToast m ''error'' st)"
  by (auto simp: thrown_def apiRequest_recv_def Let_def
           split: fetch_result.splits error_body.splits ok_body.splits option.splits if_splits)

lemma apiRequest_recv_returned:
  "thrown method r = None \<Longrightarrow> \<exists>v. apiRequest_recv method r st = (Inr v, st)"
  by (auto simp: thrown_def apiRequest_recv_def Let_def
           split: fetch_result.splits error_body.splits ok_body.splits option.splits if_splits)

lemma apiRequest_recv_data:
  "method \<noteq> ''DELETE'' \<Longrightarrow> apiRequest_recv method (IsOk (Parsed v)) st = (Inr (Data v), st)"
  by (simp add: apiRequest_recv_def)

lemma thrown_Rejected: "thrown method (Rejected m) = Some m"
  by (simp add: thrown_def apiRequest_recv_def)

lemma thrown_cases:
  "thrown method (NotOk (ErrorData None)) = Some ''API request failed''"
  "thrown method (NotOk (ErrorData (Some d))) = Some (if d \<noteq> [] then d else ''API request failed'')"
  "thrown method (NotOk (BadErrorBody m)) = Some m"
  "thrown method (IsOk (Parsed v)) = None"
  "thrown method (IsOk (BadBody m)) = (if method = ''DELETE'' then None else Some m)"
  by (simp_all add: thrown_def apiRequest_recv_def Let_def)

text \<open>Only a \<open>DELETE\<close> returns \<open>{ success: true }\<close>, so the branches for it in the callers
  of the other methods are never taken.\<close>

lemma success_true_only_for_DELETE:
  "fst (apiRequest_recv method r st) = Inr SuccessTrue \<Longrightarrow> method = ''DELETE''"
  by (auto simp: apiRequest_recv_def Let_def
           split: fetch_result.splits error_body.splits ok_body.splits option.splits if_splits)

lemma thrown_not_DELETE:
  "method \<noteq> ''DELETE'' \<Longrightarrow> thrown method r = thrown ''GET'' r"
  by (auto simp: thrown_def apiRequest_recv_def Let_def
           split: fetch_result.splits error_body.splits ok_body.splits option.splits
        list_body.splits)

section \<open>Properties of the loaders\<close>

lemma all_records_map_Some: "all_records (map Some xs) = Some xs"
  by (induction xs) simp_all

lemma rendered_records_records: "rendered_records (records xs) = Some xs"
  by (simp add: rendered_records_def records_def all_records_map_Some)

lemma rendered_records_null:
  "rendered_records NullBody = None"
  "rendered_records (Array (None # xs)) = None"
  "rendered_records (Array (Some x # None # xs)) = None"
  by (simp_all add: rendered_records_def)

lemma loadAgents_failed:
  "thrown ''GET'' r = Some m \<Longrightarrow>
   agents (loadAgents r st) = mock_agents \<and> toasts (loadAgents r st) = toasts st @ [(m, ''error'')]"
  by (simp add: loadAgents_def loadAgents_resume_def loadAgents_start_def apiRequest_recv_thrown
        renderAgents_def showToast_def apiRequest_send_def)

lemma loadTools_failed:
  "thrown ''GET'' r = Some m \<Longrightarrow>
   tools_store (loadTools r st) = mock_tools \<and> toasts (loadTools r st) = toasts st @ [(m, ''error'')]"
  by (simp add: loadTools_def loadTools_resume_def loadTools_start_def apiRequest_recv_thrown
        renderTools_def showToast_def apiRequest_send_def)

lemma loadWorkflows_failed:
  "thrown ''GET'' r = Some m \<Longrightarrow>
   workflows (loadWorkflows r st) = mock_workflows \<and>
   toasts (loadWorkflows r st) = toasts st @ [(m, ''error'')]"
  by (simp add: loadWorkflows_def loadWorkflows_resume_def loadWorkflows_start_def
        apiRequest_recv_thrown renderWorkflows_def showToast_def apiRequest_send_def)

lemma loadSystemConfig_failed:
  "thrown ''GET'' r = Some m \<Longrightarrow>
   systemConfig (loadSystemConfig r st) = Some mock_config \<and>
   toasts (loadSystemConfig r st) = toasts st @ [(m, ''error'')]"
  by (simp add: loadSystemConfig_def loadSystemConfig_resume_def loadSystemConfig_start_def
        apiRequest_recv_thrown renderSystemConfig_def renderGeneralSettings_def
        renderDatabaseConfigs_def renderLlmConfigs_def showToast_def apiRequest_send_def)

lemma load_succeeded:
  "agents (loadAgents (IsOk (Parsed (records va))) st) = va \<and>
   toasts (loadAgents (IsOk (Parsed (records va))) st) = toasts st \<and>
   tools_store (loadTools (IsOk (Parsed (records vt))) st) = vt \<and>
   toasts (loadTools (IsOk (Parsed (records vt))) st) = toasts st \<and>
   workflows (loadWorkflows (IsOk (Parsed (records vw))) st) = vw \<and>
   toasts (loadWorkflows (IsOk (Parsed (records vw))) st) = toasts st \<and>
   systemConfig (loadSystemConfig (IsOk (Parsed (Some vc))) st) = Some vc \<and>
   toasts (loadSystemConfig (IsOk (Parsed (Some vc))) st) = toasts st"
  by (simp add: loadAgents_def loadAgents_resume_def loadAgents_start_def
        loadTools_def loadTools_resume_def loadTools_start_def
        loadWorkflows_def loadWorkflows_resume_def loadWorkflows_start_def
        loadSystemConfig_def loadSystemConfig_resume_def loadSystemConfig_start_def
        apiRequest_recv_data rendered_records_records renderAgents_def renderTools_def
        renderWorkflows_def
        renderSystemConfig_def renderGeneralSettings_def
        renderDatabaseConfigs_def renderLlmConfigs_def apiRequest_send_def)

text \<open>A body on which the render throws also leads to the \<open>catch\<close>: the development
  data are stored, and no toast is shown, since the request itself succeeded.\<close>

lemma loadAgents_render_failed:
  "rendered_records b = None \<Longrightarrow>
   agents (loadAgents (IsOk (Parsed b)) st) = mock_agents \<and>
   toasts (loadAgents (IsOk (Parsed b)) st) = toasts st"
  by (simp add: loadAgents_def loadAgents_resume_def loadAgents_start_def
        apiRequest_recv_data renderAgents_def apiRequest_send_def)

lemma loadTools_render_failed:
  "rendered_records b = None \<Longrightarrow>
   tools_store (loadTools (IsOk (Parsed b)) st) = mock_tools \<and>
   toasts (loadTools (IsOk (Parsed b)) st) = toasts st"
  by (simp add: loadTools_def loadTools_resume_def loadTools_start_def
        apiRequest_recv_data renderTools_def apiRequest_send_def)

lemma loadWorkflows_render_failed:
  "rendered_records b = None \<Longrightarrow>
   workflows (loadWorkflows (IsOk (Parsed b)) st) = mock_workflows \<and>
   toasts (loadWorkflows (IsOk (Parsed b)) st) = toasts st"
  by (simp add: loadWorkflows_def loadWorkflows_resume_def loadWorkflows_start_def
        apiRequest_recv_data renderWorkflows_def apiRequest_send_def)

lemma loadSystemConfig_render_failed:
  "systemConfig (loadSystemConfig (IsOk (Parsed None)) st) = Some mock_config \<and>
   toasts (loadSystemConfig (IsOk (Parsed None)) st) = toasts st"
  by (simp add: loadSystemConfig_def loadSystemConfig_resume_def loadSystemConfig_start_def
        apiRequest_recv_data renderSystemConfig_def renderGeneralSettings_def
        renderDatabaseConfigs_def renderLlmConfigs_def apiRequest_send_def)

text \<open>
  C1, as the code has it. For every resource kind, a load whose request fails replaces
  the store with the fixed demonstration data, whatever the store held before (so
  also data of a prior successful load), and that failure is surfaced: the toasts grow
  by exactly one error toast that carries the message of the failure. The
  demonstration data are not empty, and a load that receives a collection of records
  stores it.
\<close>

theorem load_failure_fallback:
  "(thrown ''GET'' ra = Some m \<longrightarrow>
      agents (loadAgents ra st) = mock_agents \<and>
      toasts (loadAgents ra st) = toasts st @ [(m, ''error'')]) \<and>
   (thrown ''GET'' rt = Some m \<longrightarrow>
      tools_store (loadTools rt st) = mock_tools \<and>
      toasts (loadTools rt st) = toasts st @ [(m, ''error'')]) \<and>
   (thrown ''GET'' rw = Some m \<longrightarrow>
      workflows (loadWorkflows rw st) = mock_workflows \<and>
      toasts (loadWorkflows rw st) = toasts st @ [(m, ''error'')]) \<and>
   (thrown ''GET'' rc = Some m \<longrightarrow>
      systemConfig (loadSystemConfig rc st) = Some mock_config \<and>
      toasts (loadSystemConfig rc st) = toasts st @ [(m, ''error'')]) \<and>
   mock_agents \<noteq> [] \<and> mock_tools \<noteq> [] \<and> mock_workflows \<noteq> [] \<and>
   agents (loadAgents (IsOk (Parsed (records va))) st) = va \<and>
   tools_store (loadTools (IsOk (Parsed (records vt))) st) = vt \<and>
   workflows (loadWorkflows (IsOk (Parsed (records vw))) st) = vw \<and>
   systemConfig (loadSystemConfig (IsOk (Parsed (Some vc))) st) = Some vc"
  using loadAgents_failed [of ra m st] loadTools_failed [of rt m st]
    loadWorkflows_failed [of rw m st] loadSystemConfig_failed [of rc m st]
    load_succeeded [of va st vt vw vc]
  by (simp add: mock_agents_def mock_tools_def mock_workflows_def)

theorem load_failure_fallback_witness:
  "thrown ''GET'' (Rejected ''Failed to fetch'' :: agent list fetch_result) = Some ''Failed to fetch'' \<and>
   agents (loadAgents (Rejected ''Failed to fetch'') init_state) = mock_agents \<and>
   toasts (loadAgents (Rejected ''Failed to fetch'') init_state) = [(''Failed to fetch'', ''error'')] \<and>
   tools_store (loadTools (Rejected ''Failed to fetch'') init_state) = mock_tools \<and>
   toasts (loadTools (Rejected ''Failed to fetch'') init_state) = [(''Failed to fetch'', ''error'')] \<and>
   workflows (loadWorkflows (Rejected ''Failed to fetch'') init_state) = mock_workflows \<and>
   toasts (loadWorkflows (Rejected ''Failed to fetch'') init_state) = [(''Failed to fetch'', ''error'')] \<and>
   systemConfig (loadSystemConfig (Rejected ''Failed to fetch'') init_state) = Some mock_config \<and>
   toasts (loadSystemConfig (Rejected ''Failed to fetch'') init_state) =
     [(''Failed to fetch'', ''error'')]"
  using load_failure_fallback [where ra = "Rejected ''Failed to fetch''"
      and rt = "Rejected ''Failed to fetch''" and rw = "Rejected ''Failed to fetch''"
      and rc = "Rejected ''Failed to fetch''" and m = "''Failed to fetch''" and st = init_state]
  by (simp add: thrown_Rejected init_state_def)

text \<open>
  C1 as stated fails, twice. After a successful load has stored one agent, a failed
  load replaces that agent with the demonstration data. And on the very first load, a
  response that is \<open>ok\<close> with the body \<open>null\<close> is replaced by the demonstration data with
  no notification at all.
\<close>

theorem load_failure_replaces_data_counterexample:
  "agents (loadAgents (IsOk (Parsed (records [planner_agent]))) init_state) = [planner_agent] \<and>
   agents (loadAgents (Rejected ''Failed to fetch'')
             (loadAgents (IsOk (Parsed (records [planner_agent]))) init_state)) \<noteq>
     [planner_agent] \<and>
   agents (loadAgents (IsOk (Parsed NullBody)) init_state) = mock_agents \<and>
   toasts (loadAgents (IsOk (Parsed NullBody)) init_state) = []"
  using load_succeeded [of "[planner_agent]" init_state]
    loadAgents_failed [of "Rejected ''Failed to fetch''" "''Failed to fetch''"
       "loadAgents (IsOk (Parsed (records [planner_agent]))) init_state"]
    loadAgents_render_failed [of NullBody init_state]
  by (simp add: thrown_Rejected mock_agents_def rendered_records_null init_state_def)

section \<open>Notifications of a failed call\<close>

lemma apiRequest_thrown:
  "thrown method r = Some m \<Longrightarrow>
   apiRequest endpoint method data r st =
     (Inl m, showToast m ''error'' (apiRequest_send endpoint method data st))"
  by (simp add: apiRequest_def apiRequest_recv_thrown)

lemma apiRequest_returned:
  "thrown method r = None \<Longrightarrow>
   \<exists>v. apiRequest endpoint method data r st = (Inr v, apiRequest_send endpoint method data st)"
  by (simp add: apiRequest_def apiRequest_recv_returned)

lemma saveAgent_failed:
  assumes "thrown ''PUT'' r = Some m"
  shows "toasts (saveAgent r r_reload st) =
           toasts st @ [(m, ''error''), (''Error saving agent'', ''error'')]"
proof -
  have post: "thrown ''POST'' r = Some m"
    using assms thrown_not_DELETE [of "''POST''" r] thrown_not_DELETE [of "''PUT''" r] by simp
  show ?thesis
    using assms post
    by (simp add: saveAgent_def Let_def apiRequest_thrown showToast_def apiRequest_send_def
          split: option.splits)
qed

lemma deleteAgent_failed:
  "thrown ''DELETE'' r = Some m \<Longrightarrow>
   agents (deleteAgent True agentId r r_reload st) = agents st \<and>
   agent_list (deleteAgent True agentId r r_reload st) = agent_list st \<and>
   calls (deleteAgent True agentId r r_reload st) =
     calls st @ [\<lparr>req_url = ''/api/v1/agents/'' @ agentId, req_method = ''DELETE'',
                  req_body = None\<rparr>] \<and>
   toasts (deleteAgent True agentId r r_reload st) =
     toasts st @ [(m, ''error''), (''Error deleting agent'', ''error'')]"
  by (simp add: deleteAgent_def apiRequest_thrown showToast_def apiRequest_send_def apiBaseUrl_def)

lemma deleteTool_failed:
  "thrown ''DELETE'' r = Some m \<Longrightarrow>
   tools_store (deleteTool True toolId r r_reload st) = tools_store st \<and>
   tool_list (deleteTool True toolId r r_reload st) = tool_list st \<and>
   calls (deleteTool True toolId r r_reload st) =
     calls st @ [\<lparr>req_url = ''/api/v1/tools/'' @ toolId, req_method = ''DELETE'',
                  req_body = None\<rparr>] \<and>
   toasts (deleteTool True toolId r r_reload st) =
     toasts st @ [(m, ''error''), (''Error deleting tool'', ''error'')]"
  by (simp add: deleteTool_def apiRequest_thrown showToast_def apiRequest_send_def apiBaseUrl_def)

lemma deleteWorkflow_failed:
  "thrown ''DELETE'' r = Some m \<Longrightarrow>
   workflows (deleteWorkflow True workflowId r r_reload st) = workflows st \<and>
   workflow_list (deleteWorkflow True workflowId r r_reload st) = workflow_list st \<and>
   calls (deleteWorkflow True workflowId r r_reload st) =
     calls st @ [\<lparr>req_url = ''/api/v1/workflows/'' @ workflowId, req_method = ''DELETE'',
                  req_body = None\<rparr>] \<and>
   toasts (deleteWorkflow True workflowId r r_reload st) =
     toasts st @ [(m, ''error''), (''Error deleting workflow'', ''error'')]"
  by (simp add: deleteWorkflow_def apiRequest_thrown showToast_def apiRequest_send_def
        apiBaseUrl_def)

lemma delete_succeeded:
  "thrown ''DELETE'' r = None \<Longrightarrow>
   deleteAgent True agentId r ra st =
     loadAgents ra (showToast ''Agent deleted successfully'' ''success''
       (apiRequest_send (''/agents/'' @ agentId) ''DELETE'' None st)) \<and>
   deleteTool True toolId r rt st =
     loadTools rt (showToast ''Tool deleted successfully'' ''success''
       (apiRequest_send (''/tools/'' @ toolId) ''DELETE'' None st)) \<and>
   deleteWorkflow True workflowId r rw st =
     loadWorkflows rw (showToast ''Workflow deleted successfully'' ''success''
       (apiRequest_send (''/workflows/'' @ workflowId) ''DELETE'' None st))"
  using apiRequest_returned [of "''DELETE''" r "''/agents/'' @ agentId" None st]
    apiRequest_returned [of "''DELETE''" r "''/tools/'' @ toolId" None st]
    apiRequest_returned [of "''DELETE''" r "''/workflows/'' @ workflowId" None st]
  by (auto simp: deleteAgent_def deleteTool_def deleteWorkflow_def)

text \<open>
  C4, as the code has it. Every failure of the API client is reported once, with
  severity error, inside the request wrapper, and thrown again. The callers
  \<open>saveAgent\<close> and \<open>deleteAgent\<close> then add an error toast of their own for the same failed
  call, so such a call leaves two error toasts; \<open>loadAgents\<close> adds none.
\<close>

theorem failure_reported_by_wrapper_and_caller:
  "(thrown meth r = Some m \<longrightarrow>
      fst (apiRequest endpoint meth data r st) = Inl m \<and>
      toasts (snd (apiRequest endpoint meth data r st)) = toasts st @ [(m, ''error'')]) \<and>
   (thrown ''PUT'' rs = Some m \<longrightarrow>
      toasts (saveAgent rs r_reload st) =
        toasts st @ [(m, ''error''), (''Error saving agent'', ''error'')]) \<and>
   (thrown ''DELETE'' rd = Some m \<longrightarrow>
      toasts (deleteAgent True agentId rd r_reload st) =
        toasts st @ [(m, ''error''), (''Error deleting agent'', ''error'')]) \<and>
   (thrown ''GET'' rl = Some m \<longrightarrow>
      toasts (loadAgents rl st) = toasts st @ [(m, ''error'')])"
  using saveAgent_failed [of rs m r_reload st] deleteAgent_failed [of rd m agentId r_reload st]
    loadAgents_failed [of rl m st]
  by (simp add: apiRequest_thrown showToast_def apiRequest_send_def)

theorem failure_reported_by_wrapper_and_caller_witness:
  "thrown ''PUT'' (Rejected ''Failed to fetch'' :: agent fetch_result) = Some ''Failed to fetch'' \<and>
   fst (apiRequest ''/agents'' ''PUT'' None (Rejected ''Failed to fetch'' :: agent fetch_result)
          init_state) = Inl ''Failed to fetch'' \<and>
   toasts (snd (apiRequest ''/agents'' ''PUT'' None
                  (Rejected ''Failed to fetch'' :: agent fetch_result) init_state)) =
     [(''Failed to fetch'', ''error'')] \<and>
   toasts (saveAgent (Rejected ''Failed to fetch'' :: agent fetch_result) (IsOk (Parsed (records [])))
             init_state) =
     [(''Failed to fetch'', ''error''), (''Error saving agent'', ''error'')] \<and>
   toasts (deleteAgent True ''1'' (Rejected ''Failed to fetch'' :: agent fetch_result)
             (IsOk (Parsed (records []))) init_state) =
     [(''Failed to fetch'', ''error''), (''Error deleting agent'', ''error'')] \<and>
   toasts (loadAgents (Rejected ''Failed to fetch'') init_state) =
     [(''Failed to fetch'', ''error'')]"
  using failure_reported_by_wrapper_and_caller
    [where meth = "''PUT''" and r = "Rejected ''Failed to fetch'' :: agent fetch_result"
       and rs = "Rejected ''Failed to fetch'' :: agent fetch_result"
       and rd = "Rejected ''Failed to fetch'' :: agent fetch_result"
       and rl = "Rejected ''Failed to fetch''"
       and m = "''Failed to fetch''" and st = init_state and endpoint = "''/agents''"
       and data = None and r_reload = "IsOk (Parsed (records []))" and agentId = "''1''"]
  by (simp add: thrown_Rejected init_state_def)

text \<open>
  C4 as stated fails: one failed \<open>PUT\<close> of \<open>saveAgent\<close> leaves two error toasts, the
  wrapper's and the caller's.
\<close>

theorem caller_announces_failure_again_counterexample:
  "toasts (saveAgent (Rejected ''Failed to fetch'' :: agent fetch_result) (IsOk (Parsed (records [])))
             (init_state\<lparr>editingAgentId := Some ''7''\<rparr>)) =
     [(''Failed to fetch'', ''error''), (''Error saving agent'', ''error'')] \<and>
   length (filter (\<lambda>t. snd t = ''error'')
             (toasts (saveAgent (Rejected ''Failed to fetch'' :: agent fetch_result)
                        (IsOk (Parsed (records []))) (init_state\<lparr>editingAgentId := Some ''7''\<rparr>)))) \<noteq> 1"
  using saveAgent_failed [of "Rejected ''Failed to fetch'' :: agent fetch_result"
      "''Failed to fetch''" "IsOk (Parsed (records []))" "init_state\<lparr>editingAgentId := Some ''7''\<rparr>"]
  by (simp add: thrown_Rejected init_state_def)

section \<open>Properties of delete\<close>

lemma loadAgents_calls:
  "calls (loadAgents r st) =
     calls st @ [\<lparr>req_url = ''/api/v1/agents'', req_method = ''GET'', req_body = None\<rparr>]"
  by (simp add: loadAgents_def loadAgents_resume_def loadAgents_start_def apiRequest_recv_def
        renderAgents_def showToast_def apiRequest_send_def apiBaseUrl_def Let_def
      split: fetch_result.splits error_body.splits ok_body.splits option.splits
        list_body.splits)

lemma loadTools_calls:
  "calls (loadTools r st) =
     calls st @ [\<lparr>req_url = ''/api/v1/tools'', req_method = ''GET'', req_body = None\<rparr>]"
  by (simp add: loadTools_def loadTools_resume_def loadTools_start_def apiRequest_recv_def
        renderTools_def showToast_def apiRequest_send_def apiBaseUrl_def Let_def
      split: fetch_result.splits error_body.splits ok_body.splits option.splits
        list_body.splits)

lemma loadWorkflows_calls:
  "calls (loadWorkflows r st) =
     calls st @ [\<lparr>req_url = ''/api/v1/workflows'', req_method = ''GET'', req_body = None\<rparr>]"
  by (simp add: loadWorkflows_def loadWorkflows_resume_def loadWorkflows_start_def
        apiRequest_recv_def renderWorkflows_def showToast_def apiRequest_send_def apiBaseUrl_def
        Let_def
      split: fetch_result.splits error_body.splits ok_body.splits option.splits
        list_body.splits)

text \<open>
  C7. A delete that is not confirmed changes nothing (no request is issued). A
  confirmed delete whose \<open>DELETE\<close> fails leaves the collection and its table as they
  were, issues no further request, and shows only error toasts. A confirmed delete
  whose \<open>DELETE\<close> succeeds shows the success toast and reloads the owning store: it is
  the reload applied to the state with that toast, and the requests issued are the
  \<open>DELETE\<close> and the \<open>GET\<close> of the collection.
\<close>

theorem delete_confirmed_and_not_optimistic:
  "deleteAgent False agentId r ra st = st \<and>
   deleteTool False toolId r rt st = st \<and>
   deleteWorkflow False workflowId r rw st = st \<and>
   (thrown ''DELETE'' r = Some m \<longrightarrow>
      agents (deleteAgent True agentId r ra st) = agents st \<and>
      agent_list (deleteAgent True agentId r ra st) = agent_list st \<and>
      calls (deleteAgent True agentId r ra st) =
        calls st @ [\<lparr>req_url = ''/api/v1/agents/'' @ agentId, req_method = ''DELETE'',
                     req_body = None\<rparr>] \<and>
      toasts (deleteAgent True agentId r ra st) =
        toasts st @ [(m, ''error''), (''Error deleting agent'', ''error'')] \<and>
      tools_store (deleteTool True toolId r rt st) = tools_store st \<and>
      tool_list (deleteTool True toolId r rt st) = tool_list st \<and>
      calls (deleteTool True toolId r rt st) =
        calls st @ [\<lparr>req_url = ''/api/v1/tools/'' @ toolId, req_method = ''DELETE'',
                     req_body = None\<rparr>] \<and>
      toasts (deleteTool True toolId r rt st) =
        toasts st @ [(m, ''error''), (''Error deleting tool'', ''error'')] \<and>
      workflows (deleteWorkflow True workflowId r rw st) = workflows st \<and>
      workflow_list (deleteWorkflow True workflowId r rw st) = workflow_list st \<and>
      calls (deleteWorkflow True workflowId r rw st) =
        calls st @ [\<lparr>req_url = ''/api/v1/workflows/'' @ workflowId, req_method = ''DELETE'',
                     req_body = None\<rparr>] \<and>
      toasts (deleteWorkflow True workflowId r rw st) =
        toasts st @ [(m, ''error''), (''Error deleting workflow'', ''error'')]) \<and>
   (thrown ''DELETE'' r = None \<longrightarrow>
      deleteAgent True agentId r ra st =
        loadAgents ra (showToast ''Agent deleted successfully'' ''success''
          (apiRequest_send (''/agents/'' @ agentId) ''DELETE'' None st)) \<and>
      calls (deleteAgent True agentId r ra st) =
        calls st @ [\<lparr>req_url = ''/api/v1/agents/'' @ agentId, req_method = ''DELETE'',
                     req_body = None\<rparr>,
                    \<lparr>req_url = ''/api/v1/agents'', req_method = ''GET'', req_body = None\<rparr>] \<and>
      deleteTool True toolId r rt st =
        loadTools rt (showToast ''Tool deleted successfully'' ''success''
          (apiRequest_send (''/tools/'' @ toolId) ''DELETE'' None st)) \<and>
      calls (deleteTool True toolId r rt st) =
        calls st @ [\<lparr>req_url = ''/api/v1/tools/'' @ toolId, req_method = ''DELETE'',
                     req_body = None\<rparr>,
                    \<lparr>req_url = ''/api/v1/tools'', req_method = ''GET'', req_body = None\<rparr>] \<and>
      deleteWorkflow True workflowId r rw st =
        loadWorkflows rw (showToast ''Workflow deleted successfully'' ''success''
          (apiRequest_send (''/workflows/'' @ workflowId) ''DELETE'' None st)) \<and>
      calls (deleteWorkflow True workflowId r rw st) =
        calls st @ [\<lparr>req_url = ''/api/v1/workflows/'' @ workflowId, req_method = ''DELETE'',
                     req_body = None\<rparr>,
                    \<lparr>req_url = ''/api/v1/workflows'', req_method = ''GET'',
                     req_body = None\<rparr>])"
proof -
  have unconfirmed:
    "deleteAgent False agentId r ra st = st \<and> deleteTool False toolId r rt st = st \<and>
     deleteWorkflow False workflowId r rw st = st"
    by (simp add: deleteAgent_def deleteTool_def deleteWorkflow_def)
  have ok: "thrown ''DELETE'' r = None \<Longrightarrow>
      calls (deleteAgent True agentId r ra st) =
        calls st @ [\<lparr>req_url = ''/api/v1/agents/'' @ agentId, req_method = ''DELETE'',
                     req_body = None\<rparr>,
                    \<lparr>req_url = ''/api/v1/agents'', req_method = ''GET'', req_body = None\<rparr>] \<and>
      calls (deleteTool True toolId r rt st) =
        calls st @ [\<lparr>req_url = ''/api/v1/tools/'' @ toolId, req_method = ''DELETE'',
                     req_body = None\<rparr>,
                    \<lparr>req_url = ''/api/v1/tools'', req_method = ''GET'', req_body = None\<rparr>] \<and>
      calls (deleteWorkflow True workflowId r rw st) =
        calls st @ [\<lparr>req_url = ''/api/v1/workflows/'' @ workflowId, req_method = ''DELETE'',
                     req_body = None\<rparr>,
                    \<lparr>req_url = ''/api/v1/workflows'', req_method = ''GET'',
                     req_body = None\<rparr>]"
    using delete_succeeded [of r agentId ra st toolId rt workflowId rw]
    by (simp add: loadAgents_calls loadTools_calls loadWorkflows_calls showToast_def
          apiRequest_send_def apiBaseUrl_def)
  show ?thesis
    using unconfirmed ok delete_succeeded [of r agentId ra st toolId rt workflowId rw]
      deleteAgent_failed [of r m agentId ra st] deleteTool_failed [of r m toolId rt st]
      deleteWorkflow_failed [of r m workflowId rw st]
    by blast
qed

theorem delete_confirmed_and_not_optimistic_witness:
  "thrown ''DELETE'' (Rejected ''Failed to fetch'' :: agent fetch_result) = Some ''Failed to fetch'' \<and>
   agents (deleteAgent True ''7'' (Rejected ''Failed to fetch'' :: agent fetch_result)
             (IsOk (Parsed (records []))) (init_state\<lparr>agents := [planner_agent]\<rparr>)) = [planner_agent] \<and>
   calls (deleteAgent True ''7'' (Rejected ''Failed to fetch'' :: agent fetch_result)
            (IsOk (Parsed (records []))) (init_state\<lparr>agents := [planner_agent]\<rparr>)) =
     [\<lparr>req_url = ''/api/v1/agents/7'', req_method = ''DELETE'', req_body = None\<rparr>] \<and>
   thrown ''DELETE'' (IsOk (BadBody []) :: agent fetch_result) = None \<and>
   agents (deleteAgent True ''7'' (IsOk (BadBody []) :: agent fetch_result)
             (IsOk (Parsed (records []))) (init_state\<lparr>agents := [planner_agent]\<rparr>)) = [] \<and>
   calls (deleteAgent True ''7'' (IsOk (BadBody []) :: agent fetch_result)
            (IsOk (Parsed (records []))) (init_state\<lparr>agents := [planner_agent]\<rparr>)) =
     [\<lparr>req_url = ''/api/v1/agents/7'', req_method = ''DELETE'', req_body = None\<rparr>,
      \<lparr>req_url = ''/api/v1/agents'', req_method = ''GET'', req_body = None\<rparr>]"
proof -
  let ?st = "init_state\<lparr>agents := [planner_agent]\<rparr>"
  have f: "thrown ''DELETE'' (Rejected ''Failed to fetch'' :: agent fetch_result) =
             Some ''Failed to fetch''"
    by (simp add: thrown_Rejected)
  have s: "thrown ''DELETE'' (IsOk (BadBody []) :: agent fetch_result) = None"
    by (simp add: thrown_def apiRequest_recv_def)
  note a = delete_confirmed_and_not_optimistic
    [where r = "Rejected ''Failed to fetch'' :: agent fetch_result" and m = "''Failed to fetch''"
       and agentId = "''7''" and ra = "IsOk (Parsed (records []))" and st = ?st]
  note b = delete_confirmed_and_not_optimistic
    [where r = "IsOk (BadBody []) :: agent fetch_result"
       and agentId = "''7''" and ra = "IsOk (Parsed (records []))" and st = ?st]
  from a f have a1:
    "agents (deleteAgent True ''7'' (Rejected ''Failed to fetch'' :: agent fetch_result)
               (IsOk (Parsed (records []))) ?st) = agents ?st"
    "calls (deleteAgent True ''7'' (Rejected ''Failed to fetch'' :: agent fetch_result)
              (IsOk (Parsed (records []))) ?st) =
       calls ?st @ [\<lparr>req_url = ''/api/v1/agents/'' @ ''7'', req_method = ''DELETE'',
                     req_body = None\<rparr>]"
    by blast+
  from b s have b1:
    "deleteAgent True ''7'' (IsOk (BadBody []) :: agent fetch_result) (IsOk (Parsed (records []))) ?st =
       loadAgents (IsOk (Parsed (records []))) (showToast ''Agent deleted successfully'' ''success''
         (apiRequest_send (''/agents/'' @ ''7'') ''DELETE'' None ?st))"
    "calls (deleteAgent True ''7'' (IsOk (BadBody []) :: agent fetch_result)
              (IsOk (Parsed (records []))) ?st) =
       calls ?st @ [\<lparr>req_url = ''/api/v1/agents/'' @ ''7'', req_method = ''DELETE'',
                     req_body = None\<rparr>,
                    \<lparr>req_url = ''/api/v1/agents'', req_method = ''GET'', req_body = None\<rparr>]"
    by blast+
  have c: "agents (loadAgents (IsOk (Parsed (records []))) (showToast ''Agent deleted successfully'' ''success''
         (apiRequest_send (''/agents/'' @ ''7'') ''DELETE'' None ?st))) = []"
    using load_succeeded by blast
  show ?thesis
    using f s a1 b1 c by (simp add: init_state_def)
qed

section \<open>Properties of validation\<close>

text \<open>\<open>join\<close> against the library: the first string, then each further string after
  the separator.\<close>

lemma join_concat:
  "join sep xs =
     (case xs of [] \<Rightarrow> [] | x # rest \<Rightarrow> x @ concat (map (\<lambda>y. sep @ y) rest))"
proof (induction sep xs rule: join.induct)
  case (1 sep)
  then show ?case by simp
next
  case (2 sep x)
  then show ?case by simp
next
  case (3 sep x y ys)
  then show ?case by simp
qed

text \<open>
  C9. When validation returns a false validity flag, one error toast is shown whose
  text is \<open>Workflow validation failed: \<close> followed by all returned messages in order:
  the first message, then each further message after a comma and a space. For the one
  message \<open>missing tool\<close> the text is exactly \<open>Workflow validation failed: missing tool\<close>,
  for three messages it holds all three, for none it is the prefix alone. A true flag
  gives the one success toast \<open>Workflow is valid\<close>.
\<close>

theorem validate_notification:
  "toasts (validateWorkflow workflowId (IsOk (Parsed \<lparr>is_valid = False, messages = ms\<rparr>)) st) =
     toasts st @
     [(''Workflow validation failed: '' @
       (case ms of [] \<Rightarrow> [] | m # rest \<Rightarrow> m @ concat (map (\<lambda>x. '', '' @ x) rest)),
       ''error'')] \<and>
   toasts (validateWorkflow workflowId
             (IsOk (Parsed \<lparr>is_valid = False, messages = [''missing tool'']\<rparr>)) st) =
     toasts st @ [(''Workflow validation failed: missing tool'', ''error'')] \<and>
   toasts (validateWorkflow workflowId
             (IsOk (Parsed \<lparr>is_valid = False,
                            messages = [''missing tool'', ''no agents'', ''cycle'']\<rparr>)) st) =
     toasts st @ [(''Workflow validation failed: missing tool, no agents, cycle'', ''error'')] \<and>
   toasts (validateWorkflow workflowId
             (IsOk (Parsed \<lparr>is_valid = False, messages = []\<rparr>)) st) =
     toasts st @ [(''Workflow validation failed: '', ''error'')] \<and>
   toasts (validateWorkflow workflowId (IsOk (Parsed \<lparr>is_valid = True, messages = ms\<rparr>)) st) =
     toasts st @ [(''Workflow is valid'', ''success'')]"
proof -
  have t: "toasts (validateWorkflow workflowId (IsOk (Parsed \<lparr>is_valid = False, messages = xs\<rparr>)) st) =
     toasts st @
     [(''Workflow validation failed: '' @
       (case xs of [] \<Rightarrow> [] | m # rest \<Rightarrow> m @ concat (map (\<lambda>x. '', '' @ x) rest)),
       ''error'')]" for xs
    by (simp add: validateWorkflow_def apiRequest_def apiRequest_recv_def apiRequest_send_def
          showToast_def join_concat)
  have v: "toasts (validateWorkflow workflowId (IsOk (Parsed \<lparr>is_valid = True, messages = ms\<rparr>)) st) =
     toasts st @ [(''Workflow is valid'', ''success'')]"
    by (simp add: validateWorkflow_def apiRequest_def apiRequest_recv_def apiRequest_send_def
          showToast_def)
  show ?thesis
    using t [of ms] t [of "[''missing tool'']"]
      t [of "[''missing tool'', ''no agents'', ''cycle'']"] t [of "[]"] v
    by simp
qed

section \<open>Properties of the configuration operations\<close>

lemma splice1_in_range:
  "0 \<le> i \<Longrightarrow> i < int (length xs) \<Longrightarrow>
   splice1 i xs = take (nat i) xs @ drop (Suc (nat i)) xs \<and>
   length (splice1 i xs) = length xs - 1"
  by (auto simp: splice1_def Let_def min_def)

lemma saveGeneralSettings_failed:
  assumes "systemConfig st = Some cfg" and "thrown ''PUT'' r = Some m"
  shows "\<exists>st'. saveGeneralSettings r st = Inr st' \<and>
           systemConfig st' =
             Some (cfg\<lparr>log_level := el_log_level st, cache_dir := el_cache_dir st\<rparr>) \<and>
           calls st' =
             calls st @ [\<lparr>req_url = ''/api/v1/system/config'', req_method = ''PUT'',
                          req_body = Some (ConfigData
                            (cfg\<lparr>log_level := el_log_level st,
                                 cache_dir := el_cache_dir st\<rparr>))\<rparr>] \<and>
           toasts st' = toasts st @ [(m, ''error''), (''Error saving settings'', ''error'')]"
  using assms
  by (simp add: saveGeneralSettings_def Let_def apiRequest_thrown showToast_def
        apiRequest_send_def apiBaseUrl_def)

lemma updateSystemConfig_failed:
  assumes "systemConfig st = Some cfg" and "thrown ''PUT'' r = Some m"
  shows "systemConfig (updateSystemConfig r r_reload st) = Some cfg \<and>
         calls (updateSystemConfig r r_reload st) =
           calls st @ [\<lparr>req_url = ''/api/v1/system/config'', req_method = ''PUT'',
                        req_body = Some (ConfigData cfg)\<rparr>] \<and>
         toasts (updateSystemConfig r r_reload st) =
           toasts st @ [(m, ''error''), (''Error updating configuration'', ''error'')]"
  using assms
  by (simp add: updateSystemConfig_def apiRequest_thrown showToast_def
        apiRequest_send_def apiBaseUrl_def)

lemma deleteLlm_failed:
  assumes "systemConfig st = Some cfg" and "thrown ''PUT'' r = Some m"
  shows "\<exists>st'. deleteLlm True index r r_reload st = Inr st' \<and>
           systemConfig st' = Some (cfg\<lparr>llm_configs := splice1 index (llm_configs cfg)\<rparr>) \<and>
           calls st' =
             calls st @ [\<lparr>req_url = ''/api/v1/system/config'', req_method = ''PUT'',
                          req_body = Some (ConfigData
                            (cfg\<lparr>llm_configs := splice1 index (llm_configs cfg)\<rparr>))\<rparr>] \<and>
           toasts st' =
             toasts st @ [(m, ''error''), (''Error updating configuration'', ''error'')]"
  using assms
    updateSystemConfig_failed [of "st\<lparr>systemConfig :=
        Some (cfg\<lparr>llm_configs := splice1 index (llm_configs cfg)\<rparr>)\<rparr>"
        "cfg\<lparr>llm_configs := splice1 index (llm_configs cfg)\<rparr>" r m r_reload]
  by (simp add: deleteLlm_def)

lemma deleteDatabase_failed:
  assumes "systemConfig st = Some cfg" and "thrown ''PUT'' r = Some m"
  shows "\<exists>st'. deleteDatabase True index r r_reload st = Inr st' \<and>
           systemConfig st' =
             Some (cfg\<lparr>database_configs := splice1 index (database_configs cfg)\<rparr>) \<and>
           calls st' =
             calls st @ [\<lparr>req_url = ''/api/v1/system/config'', req_method = ''PUT'',
                          req_body = Some (ConfigData
                            (cfg\<lparr>database_configs :=
                                   splice1 index (database_configs cfg)\<rparr>))\<rparr>] \<and>
           toasts st' =
             toasts st @ [(m, ''error''), (''Error updating configuration'', ''error'')]"
  using assms
    updateSystemConfig_failed [of "st\<lparr>systemConfig :=
        Some (cfg\<lparr>database_configs := splice1 index (database_configs cfg)\<rparr>)\<rparr>"
        "cfg\<lparr>database_configs := splice1 index (database_configs cfg)\<rparr>" r m r_reload]
  by (simp add: deleteDatabase_def)

text \<open>
  C10. Saving the general settings, deleting an LLM configuration and deleting a
  database configuration change the \<open>systemConfig\<close> object first and then issue the
  \<open>PUT\<close>, whose body is the changed object. When the \<open>PUT\<close> fails the change stays: no
  further request is issued (no reload), and wherever the change altered the object,
  the configuration held locally differs from the one held before the operation,
  which is the one a server that refused the \<open>PUT\<close> still holds.
\<close>

theorem config_mutation_kept_on_failed_put:
  assumes "systemConfig st = Some cfg" and "thrown ''PUT'' r = Some m"
  shows
    "(\<exists>st'. saveGeneralSettings r st = Inr st' \<and>
        systemConfig st' =
          Some (cfg\<lparr>log_level := el_log_level st, cache_dir := el_cache_dir st\<rparr>) \<and>
        calls st' =
          calls st @ [\<lparr>req_url = ''/api/v1/system/config'', req_method = ''PUT'',
                       req_body = Some (ConfigData
                         (cfg\<lparr>log_level := el_log_level st,
                              cache_dir := el_cache_dir st\<rparr>))\<rparr>] \<and>
        (cfg\<lparr>log_level := el_log_level st, cache_dir := el_cache_dir st\<rparr> \<noteq> cfg \<longrightarrow>
           systemConfig st' \<noteq> systemConfig st)) \<and>
     (\<exists>st'. deleteLlm True index r r_reload st = Inr st' \<and>
        systemConfig st' = Some (cfg\<lparr>llm_configs := splice1 index (llm_configs cfg)\<rparr>) \<and>
        calls st' =
          calls st @ [\<lparr>req_url = ''/api/v1/system/config'', req_method = ''PUT'',
                       req_body = Some (ConfigData
                         (cfg\<lparr>llm_configs := splice1 index (llm_configs cfg)\<rparr>))\<rparr>] \<and>
        (0 \<le> index \<and> index < int (length (llm_configs cfg)) \<longrightarrow>
           systemConfig st' \<noteq> systemConfig st)) \<and>
     (\<exists>st'. deleteDatabase True index r r_reload st = Inr st' \<and>
        systemConfig st' =
          Some (cfg\<lparr>database_configs := splice1 index (database_configs cfg)\<rparr>) \<and>
        calls st' =
          calls st @ [\<lparr>req_url = ''/api/v1/system/config'', req_method = ''PUT'',
                       req_body = Some (ConfigData
                         (cfg\<lparr>database_configs :=
                                splice1 index (database_configs cfg)\<rparr>))\<rparr>] \<and>
        (0 \<le> index \<and> index < int (length (database_configs cfg)) \<longrightarrow>
           systemConfig st' \<noteq> systemConfig st))"
proof -
  have l: "0 \<le> index \<and> index < int (length (llm_configs cfg)) \<Longrightarrow>
           cfg\<lparr>llm_configs := splice1 index (llm_configs cfg)\<rparr> \<noteq> cfg"
  proof
    assume a: "0 \<le> index \<and> index < int (length (llm_configs cfg))"
      and e: "cfg\<lparr>llm_configs := splice1 index (llm_configs cfg)\<rparr> = cfg"
    from e have "llm_configs (cfg\<lparr>llm_configs := splice1 index (llm_configs cfg)\<rparr>) =
                 llm_configs cfg" by simp
    then have "length (splice1 index (llm_configs cfg)) = length (llm_configs cfg)" by simp
    with a splice1_in_range [of index "llm_configs cfg"] show False by auto
  qed
  have d: "0 \<le> index \<and> index < int (length (database_configs cfg)) \<Longrightarrow>
           cfg\<lparr>database_configs := splice1 index (database_configs cfg)\<rparr> \<noteq> cfg"
  proof
    assume a: "0 \<le> index \<and> index < int (length (database_configs cfg))"
      and e: "cfg\<lparr>database_configs := splice1 index (database_configs cfg)\<rparr> = cfg"
    from e have "database_configs
                   (cfg\<lparr>database_configs := splice1 index (database_configs cfg)\<rparr>) =
                 database_configs cfg" by simp
    then have "length (splice1 index (database_configs cfg)) = length (database_configs cfg)"
      by simp
    with a splice1_in_range [of index "database_configs cfg"] show False by auto
  qed
  from saveGeneralSettings_failed [OF assms] obtain s1 where s1:
    "saveGeneralSettings r st = Inr s1"
    "systemConfig s1 = Some (cfg\<lparr>log_level := el_log_level st, cache_dir := el_cache_dir st\<rparr>)"
    "calls s1 =
       calls st @ [\<lparr>req_url = ''/api/v1/system/config'', req_method = ''PUT'',
                    req_body = Some (ConfigData
                      (cfg\<lparr>log_level := el_log_level st, cache_dir := el_cache_dir st\<rparr>))\<rparr>]"
    by blast
  from deleteLlm_failed [OF assms, of index r_reload] obtain s2 where s2:
    "deleteLlm True index r r_reload st = Inr s2"
    "systemConfig s2 = Some (cfg\<lparr>llm_configs := splice1 index (llm_configs cfg)\<rparr>)"
    "calls s2 =
       calls st @ [\<lparr>req_url = ''/api/v1/system/config'', req_method = ''PUT'',
                    req_body = Some (ConfigData
                      (cfg\<lparr>llm_configs := splice1 index (llm_configs cfg)\<rparr>))\<rparr>]"
    by blast
  from deleteDatabase_failed [OF assms, of index r_reload] obtain s3 where s3:
    "deleteDatabase True index r r_reload st = Inr s3"
    "systemConfig s3 =
       Some (cfg\<lparr>database_configs := splice1 index (database_configs cfg)\<rparr>)"
    "calls s3 =
       calls st @ [\<lparr>req_url = ''/api/v1/system/config'', req_method = ''PUT'',
                    req_body = Some (ConfigData
                      (cfg\<lparr>database_configs := splice1 index (database_configs cfg)\<rparr>))\<rparr>]"
    by blast
  have c1: "cfg\<lparr>log_level := el_log_level st, cache_dir := el_cache_dir st\<rparr> \<noteq> cfg \<longrightarrow>
            systemConfig s1 \<noteq> systemConfig st"
    using s1(2) assms(1) by simp
  have c2: "0 \<le> index \<and> index < int (length (llm_configs cfg)) \<longrightarrow>
            systemConfig s2 \<noteq> systemConfig st"
    using s2(2) assms(1) l by auto
  have c3: "0 \<le> index \<and> index < int (length (database_configs cfg)) \<longrightarrow>
            systemConfig s3 \<noteq> systemConfig st"
    using s3(2) assms(1) d by auto
  show ?thesis
    using s1 s2 s3 c1 c2 c3 by blast
qed

theorem config_mutation_kept_on_failed_put_witness:
  "systemConfig (init_state\<lparr>systemConfig := Some mock_config, el_log_level := ''DEBUG''\<rparr>) =
     Some mock_config \<and>
   thrown ''PUT'' (Rejected ''Failed to fetch'' :: system_config fetch_result) =
     Some ''Failed to fetch'' \<and>
   (\<exists>st'. saveGeneralSettings (Rejected ''Failed to fetch'' :: system_config fetch_result)
            (init_state\<lparr>systemConfig := Some mock_config, el_log_level := ''DEBUG''\<rparr>) = Inr st' \<and>
      systemConfig st' = Some (mock_config\<lparr>log_level := ''DEBUG'', cache_dir := []\<rparr>) \<and>
      systemConfig st' \<noteq> Some mock_config) \<and>
   (\<exists>st'. deleteLlm True 0 (Rejected ''Failed to fetch'' :: system_config fetch_result)
            (IsOk (Parsed (Some mock_config)))
            (init_state\<lparr>systemConfig := Some mock_config, el_log_level := ''DEBUG''\<rparr>) = Inr st' \<and>
      systemConfig st' = Some (mock_config\<lparr>llm_configs := []\<rparr>) \<and>
      systemConfig st' \<noteq> Some mock_config) \<and>
   (\<exists>st'. deleteDatabase True 0 (Rejected ''Failed to fetch'' :: system_config fetch_result)
            (IsOk (Parsed (Some mock_config)))
            (init_state\<lparr>systemConfig := Some mock_config, el_log_level := ''DEBUG''\<rparr>) = Inr st' \<and>
      systemConfig st' = Some (mock_config\<lparr>database_configs := []\<rparr>) \<and>
      systemConfig st' \<noteq> Some mock_config)"
proof -
  let ?st = "init_state\<lparr>systemConfig := Some mock_config, el_log_level := ''DEBUG''\<rparr>"
  let ?r = "Rejected ''Failed to fetch'' :: system_config fetch_result"
  have h1: "systemConfig ?st = Some mock_config" by simp
  have h2: "thrown ''PUT'' ?r = Some ''Failed to fetch''" by (simp add: thrown_Rejected)
  have v: "el_log_level ?st = ''DEBUG''" "el_cache_dir ?st = []"
    "splice1 0 (llm_configs mock_config) = []"
    "splice1 0 (database_configs mock_config) = []"
    "(0::int) \<le> 0 \<and> 0 < int (length (llm_configs mock_config))"
    "(0::int) \<le> 0 \<and> 0 < int (length (database_configs mock_config))"
    "mock_config\<lparr>log_level := ''DEBUG'', cache_dir := []\<rparr> \<noteq> mock_config"
    by (simp_all add: init_state_def mock_config_def splice1_def)
  from config_mutation_kept_on_failed_put [OF h1 h2, of 0 "IsOk (Parsed (Some mock_config))"]
  show ?thesis
    unfolding v using h1 h2 v(5,6,7) by auto
qed

section \<open>Properties of run and test\<close>

text \<open>A prompt answer that does not parse is rejected before any request: the only
  effect is the alert. A request is issued only for an answer that parses.\<close>

lemma malformed_input_rejected_locally:
  assumes "JSON_parse s = None" and "s \<noteq> []"
  shows "runWorkflow JSON_parse JSON_stringify (Some s) workflowId r st =
           alert ''Invalid JSON input. Please enter valid JSON.'' st \<and>
         testTool JSON_parse JSON_stringify (Some s) toolId r st =
           alert ''Invalid JSON input. Please enter valid JSON.'' st \<and>
         calls (runWorkflow JSON_parse JSON_stringify (Some s) workflowId r st) = calls st \<and>
         toasts (runWorkflow JSON_parse JSON_stringify (Some s) workflowId r st) = toasts st \<and>
         calls (testTool JSON_parse JSON_stringify (Some s) toolId r st) = calls st \<and>
         toasts (testTool JSON_parse JSON_stringify (Some s) toolId r st) = toasts st"
  using assms by (simp add: runWorkflow_def testTool_def alert_def)

lemma request_only_for_parsed_input:
  assumes "calls (runWorkflow JSON_parse JSON_stringify runInput workflowId r st) \<noteq> calls st \<or>
           calls (testTool JSON_parse JSON_stringify runInput toolId r st) \<noteq> calls st"
  shows "\<exists>s v. runInput = Some s \<and> JSON_parse s = Some v"
  using assms
  by (auto simp: runWorkflow_def testTool_def alert_def split: option.splits if_splits)

text \<open>
  C8, where the code departs from it. When the answer parses and the request then
  fails, the error that \<open>apiRequest\<close> throws again is caught by the same inner
  \<open>catch\<close> as a parse error: after the wrapper's error toast, the alert shown is the
  invalid-input notice itself, for \<open>runWorkflow\<close> and for \<open>testTool\<close>.
\<close>

theorem backend_failure_shown_as_invalid_input:
  assumes "JSON_parse s = Some v" and "s \<noteq> []" and "thrown ''POST'' r = Some m"
  shows "runWorkflow JSON_parse JSON_stringify (Some s) workflowId r st =
           alert ''Invalid JSON input. Please enter valid JSON.''
             (showToast m ''error''
                (apiRequest_send (''/workflows/'' @ workflowId @ ''/run'') ''POST''
                   (Some (InputData v)) st)) \<and>
         alerts (runWorkflow JSON_parse JSON_stringify (Some s) workflowId r st) =
           alerts st @ [''Invalid JSON input. Please enter valid JSON.''] \<and>
         testTool JSON_parse JSON_stringify (Some s) toolId r st =
           alert ''Invalid JSON input. Please enter valid JSON.''
             (showToast m ''error''
                (apiRequest_send (''/tools/'' @ toolId @ ''/test'') ''POST''
                   (Some (InputData v)) st)) \<and>
         alerts (testTool JSON_parse JSON_stringify (Some s) toolId r st) =
           alerts st @ [''Invalid JSON input. Please enter valid JSON.'']"
  using assms
  by (simp add: runWorkflow_def testTool_def apiRequest_thrown alert_def showToast_def
        apiRequest_send_def)

theorem backend_failure_shown_as_invalid_input_witness:
  "parse_empty_object ''{}'' = Some (JObj []) \<and> ''{}'' \<noteq> [] \<and>
   thrown ''POST'' (Rejected ''Failed to fetch'' :: json option fetch_result) =
     Some ''Failed to fetch'' \<and>
   alerts (runWorkflow parse_empty_object (\<lambda>v. []) (Some ''{}'') ''1''
             (Rejected ''Failed to fetch'') init_state) =
     [''Invalid JSON input. Please enter valid JSON.''] \<and>
   alerts (testTool parse_empty_object (\<lambda>v. []) (Some ''{}'') ''1''
             (Rejected ''Failed to fetch'') init_state) =
     [''Invalid JSON input. Please enter valid JSON.''] \<and>
   alerts (runWorkflow parse_empty_object (\<lambda>v. []) (Some ''not-json'') ''1''
             (Rejected ''Failed to fetch'') init_state) =
     [''Invalid JSON input. Please enter valid JSON.'']"
proof -
  have h1: "parse_empty_object ''{}'' = Some (JObj [])" by (simp add: parse_empty_object_def)
  have h2: "''{}'' \<noteq> []" by simp
  have h3: "thrown ''POST'' (Rejected ''Failed to fetch'' :: json option fetch_result) =
              Some ''Failed to fetch''"
    by (simp add: thrown_Rejected)
  have n: "alerts (runWorkflow parse_empty_object (\<lambda>v. []) (Some ''not-json'') ''1''
             (Rejected ''Failed to fetch'') init_state) =
     [''Invalid JSON input. Please enter valid JSON.'']"
    by (simp add: runWorkflow_def parse_empty_object_def alert_def init_state_def)
  from backend_failure_shown_as_invalid_input
    [where JSON_parse = parse_empty_object and s = "''{}''" and v = "JObj []"
       and r = "Rejected ''Failed to fetch''" and m = "''Failed to fetch''"
       and JSON_stringify = "\<lambda>v. []" and workflowId = "''1''" and toolId = "''1''"
       and st = init_state, OF h1 h2 h3]
  have "alerts (runWorkflow parse_empty_object (\<lambda>v. []) (Some ''{}'') ''1''
                  (Rejected ''Failed to fetch'') init_state) =
          alerts init_state @ [''Invalid JSON input. Please enter valid JSON.'']"
    and "alerts (testTool parse_empty_object (\<lambda>v. []) (Some ''{}'') ''1''
                   (Rejected ''Failed to fetch'') init_state) =
          alerts init_state @ [''Invalid JSON input. Please enter valid JSON.'']"
    by blast+
  moreover have "alerts init_state = []" by (simp add: init_state_def)
  ultimately show ?thesis using h1 h3 n by simp
qed

section \<open>Properties of overlapping loads\<close>

lemma loadAgents_resume_agents:
  "agents (loadAgents_resume r st) = load_outcome r"
  by (simp add: loadAgents_resume_def apiRequest_recv_def renderAgents_def showToast_def
        load_outcome_def Let_def
      split: fetch_result.splits error_body.splits ok_body.splits option.splits)

text \<open>
  C5, as the code has it. A load that settles assigns its outcome to the store
  whatever has started or settled meanwhile: after any run of overlapping loads, the
  store holds the outcome of the load that settled last, not that of the load started
  last.
\<close>

theorem last_settled_load_wins:
  assumes "k \<in> set (in_flight (run_loads es st))"
  shows "agents (app (run_loads (es @ [ResolveLoad k r]) st)) = load_outcome r"
  using assms by (simp add: run_loads_def loadAgents_resume_agents)

theorem last_settled_load_wins_witness:
  "0 \<in> set (in_flight (run_loads [StartLoad, StartLoad, ResolveLoad 1 (IsOk (Parsed (records [planner_agent])))]
            init_state)) \<and>
   agents (app (run_loads
     ([StartLoad, StartLoad, ResolveLoad 1 (IsOk (Parsed (records [planner_agent])))] @
      [ResolveLoad 0 (IsOk (Parsed (records [plain_agent])))]) init_state)) = [plain_agent]"
proof -
  have h: "0 \<in> set (in_flight (run_loads
             [StartLoad, StartLoad, ResolveLoad 1 (IsOk (Parsed (records [planner_agent])))] init_state))"
    by (simp add: run_loads_def)
  from last_settled_load_wins [OF h, of "IsOk (Parsed (records [plain_agent]))"] h
  show ?thesis by (simp add: load_outcome_def rendered_records_records)
qed

text \<open>
  C5 as stated fails: two loads are started; the second, started last, settles first
  with one agent; the first then settles with another agent, and the store ends at the
  result of the first, the stale one.
\<close>

theorem stale_load_overwrites_counterexample:
  "agents (app (run_loads
     [StartLoad, StartLoad, ResolveLoad 1 (IsOk (Parsed (records [planner_agent])))] init_state)) =
     [planner_agent] \<and>
   agents (app (run_loads
     [StartLoad, StartLoad, ResolveLoad 1 (IsOk (Parsed (records [planner_agent]))),
      ResolveLoad 0 (IsOk (Parsed (records [plain_agent])))] init_state)) = [plain_agent] \<and>
   [plain_agent] \<noteq> [planner_agent]"
  by (simp add: run_loads_def loadAgents_resume_agents load_outcome_def
        rendered_records_records plain_agent_def planner_agent_def)

section \<open>Properties of the number conversion\<close>

lemma parseInt_examples:
  "parseInt ''30'' = Num 30"
  "parseInt ''  -0x1F'' = Num (- 31)"
  "parseInt (CHR 0xA0 # ''+42'') = Num 42"
  "parseInt ''12px'' = Num 12"
  "parseInt ''1e+21'' = Num 1"
  "parseInt ''abc'' = NaN"
  "parseInt ''-'' = NaN"
  "parseInt [] = NaN"
  by (simp_all add: parseInt_def isWhiteSpace_def parseDigits_def isDigitOf_def digitValue_def
        digitOr0_def Let_def)

section \<open>Properties of the edit session\<close>

lemma editAgent_loaded:
  "editAgent agentId (IsOk (Parsed R)) st =
     (apiRequest_send (''/agents/'' @ agentId) ''GET'' None st)
       \<lparr>agent_form := populate_form R (agent_form st),
        agent_modal_title := ''Edit Agent'',
        editingAgentId := Some agentId,
        agent_modal_open := True\<rparr>"
  by (simp add: editAgent_def apiRequest_def apiRequest_recv_data apiRequest_send_def)

lemma saveAgent_put_request:
  assumes "editingAgentId st = Some i" and "i \<noteq> []"
  shows "calls (saveAgent r r_reload st) ! length (calls st) =
           \<lparr>req_url = ''/api/v1/agents/'' @ i, req_method = ''PUT'',
            req_body = Some (AgentData (agentData (agent_form st)))\<rparr>"
proof (cases "thrown ''PUT'' r")
  case None
  from apiRequest_returned [OF None, of "''/agents/'' @ i"
      "Some (AgentData (agentData (agent_form st)))" st]
  obtain v where "apiRequest (''/agents/'' @ i) ''PUT''
      (Some (AgentData (agentData (agent_form st)))) r st =
      (Inr v, apiRequest_send (''/agents/'' @ i) ''PUT''
         (Some (AgentData (agentData (agent_form st)))) st)"
    by blast
  with assms show ?thesis
    by (simp add: saveAgent_def Let_def loadAgents_calls showToast_def apiRequest_send_def
          apiBaseUrl_def nth_append)
next
  case (Some m)
  with assms show ?thesis
    by (simp add: saveAgent_def Let_def apiRequest_thrown showToast_def apiRequest_send_def
          apiBaseUrl_def nth_append)
qed

text \<open>
  C2, where the code departs from it. The page has listed one agent, every key of
  which is set, and no create session has been opened, so the selects of the form
  hold no options yet. An edit session is opened for the agent: \<open>editAgent\<close> marks
  options and assigns the model, but does not load the options as \<open>openAgentModal\<close>
  does, so nothing can be marked. Committing without a change then sends a \<open>PUT\<close> whose
  payload has no tools, no sub-agents and an empty model, where the record has one
  tool, one sub-agent and the model \<open>gpt4\<close>.
\<close>

theorem edit_then_save_loses_references:
  "calls (saveAgent (IsOk (Parsed planner_agent)) (IsOk (Parsed (records [planner_agent])))
            (editAgent ''7'' (IsOk (Parsed planner_agent)) listed_page)) ! 2 =
     \<lparr>req_url = ''/api/v1/agents/7'', req_method = ''PUT'',
      req_body = Some (AgentData
        \<lparr>name = ''planner'', agent_type = ''react'',
         description = Some ''Plans the work'', is_master = True,
         tools = Some [], sub_agents = Some [], llm_model = Some [],
         additional_prompt = Some ''Be brief'', timeout = Some (Num 30),
         trust_mode = Some True\<rparr>)\<rparr> \<and>
   tools planner_agent = Some [''2''] \<and>
   sub_agents planner_agent = Some [''3''] \<and>
   llm_model planner_agent = Some ''gpt4''"
proof -
  let ?st1 = "editAgent ''7'' (IsOk (Parsed planner_agent)) listed_page"
  have l: "agent_form listed_page = init_form" "calls listed_page =
      [\<lparr>req_url = ''/api/v1/agents'', req_method = ''GET'', req_body = None\<rparr>]"
    by (simp_all add: listed_page_def loadAgents_def loadAgents_resume_def loadAgents_start_def
          apiRequest_recv_data rendered_records_records renderAgents_def apiRequest_send_def
          init_state_def apiBaseUrl_def)
  have e: "editingAgentId ?st1 = Some ''7''"
    and c: "length (calls ?st1) = 2"
    and f: "agentData (agent_form ?st1) =
        \<lparr>name = ''planner'', agent_type = ''react'',
         description = Some ''Plans the work'', is_master = True,
         tools = Some [], sub_agents = Some [], llm_model = Some [],
         additional_prompt = Some ''Be brief'', timeout = Some (Num 30),
         trust_mode = Some True\<rparr>"
    by (simp_all add: editAgent_loaded apiRequest_send_def l init_form_def
          populate_form_def agentData_def planner_agent_def select_value_def Let_def
          parseInt_examples)
  have n: "''7'' \<noteq> []" by simp
  from saveAgent_put_request [OF e n, of "IsOk (Parsed planner_agent)"
      "IsOk (Parsed (records [planner_agent]))"] c f
  show ?thesis by (simp add: planner_agent_def)
qed

section \<open>Opening a session over another\<close>

lemma openAgentModal_discards_form:
  "agent_form (openAgentModal r_tools r_config (st\<lparr>agent_form := f\<rparr>)) =
   agent_form (openAgentModal r_tools r_config
                 (st\<lparr>agent_form := f\<lparr>el_agent_name := n, el_agent_type := t,
                        el_agent_description := d, el_agent_is_master := im,
                        el_agent_additional_prompt := p, el_agent_timeout := tm,
                        el_agent_trust_mode := tr\<rparr>\<rparr>))"
  by (simp add: openAgentModal_def Let_def loadLlmModels_resume_def loadToolsForAgent_resume_def
        loadAgentsForSubAgents_def apiRequest_recv_def apiRequest_send_def showToast_def
        reset_form_def
      split: fetch_result.splits error_body.splits ok_body.splits option.splits
        list_body.splits)

lemma create_session_form:
  "agent_form create_session =
     init_form
       \<lparr>el_agent_tools :=
          [new_option ''1'' ''time_tools'', new_option ''2'' ''weather_tools'',
           new_option ''3'' ''calculator_tools'', new_option ''4'' ''browser_tools''],
        el_agent_sub_agents :=
          [new_option ''1'' ''time_agent'', new_option ''2'' ''weather_agent'',
           new_option ''3'' ''calculator_agent''],
        el_agent_llm_model :=
          [(new_option ''default_llm'' ''default_llm (example-model)'')
             \<lparr>opt_selected := True\<rparr>]\<rparr>"
  by (simp add: create_session_def openAgentModal_def Let_def loadLlmModels_resume_def
        loadToolsForAgent_resume_def loadAgentsForSubAgents_def apiRequest_recv_def
        apiRequest_send_def rendered_records_records init_state_def init_form_def reset_form_def select_first_def
        mock_agents_def mock_tools_def mock_config_def new_option_def)

text \<open>
  C3, where the code departs from it. A create session holds unsaved values; an edit
  session is then opened for agent 2, whose record has no model, additional prompt,
  timeout or trust mode. \<open>editAgent\<close> assigns such a field only when the record has the
  key, and does not reset the form as \<open>openAgentModal\<close> does, so the fields keep the
  values of the session before, and a save would send them for agent 2.
\<close>

theorem edit_session_keeps_unsaved_values:
  "el_agent_additional_prompt
     (agent_form (editAgent ''2'' (IsOk (Parsed plain_agent)) unsaved_session)) =
     ''Always answer in French'' \<and>
   el_agent_timeout
     (agent_form (editAgent ''2'' (IsOk (Parsed plain_agent)) unsaved_session)) = ''99'' \<and>
   el_agent_trust_mode
     (agent_form (editAgent ''2'' (IsOk (Parsed plain_agent)) unsaved_session)) = True \<and>
   editingAgentId (editAgent ''2'' (IsOk (Parsed plain_agent)) unsaved_session) = Some ''2'' \<and>
   agentData (agent_form (editAgent ''2'' (IsOk (Parsed plain_agent)) unsaved_session)) =
     \<lparr>name = ''weather_agent'', agent_type = ''chat'',
      description = Some ''An agent that provides weather information'',
      is_master = False, tools = Some [], sub_agents = Some [],
      llm_model = Some ''default_llm'',
      additional_prompt = Some ''Always answer in French'', timeout = Some (Num 99),
      trust_mode = Some True\<rparr>"
  by (simp add: editAgent_loaded apiRequest_send_def unsaved_session_def create_session_form
        init_form_def populate_form_def agentData_def plain_agent_def select_value_def Let_def
        new_option_def parseInt_def isWhiteSpace_def parseDigits_def isDigitOf_def
        digitValue_def digitOr0_def)


end
